theory Spec2Isabelle
  imports Complex_Main
begin

section \<open>Python values\<close>

text \<open>
  Strings are byte strings: a Python \<open>str\<close> is modelled by its UTF-8 encoding, so the
  em dash of the source's literals is the three bytes \<open>E2 80 94\<close>. Python's unbounded
  \<open>int\<close> is \<open>int\<close>; a \<open>float\<close> field holds a \<open>real\<close>, which stands for a finite float
  (NaN and the infinities are outside the model).
\<close>

definition em_dash :: string where
  "em_dash = [CHR 0xE2, CHR 0x80, CHR 0x94]"

text \<open>\<open>datetime.date\<close>: compared as the tuple (year, month, day), as Python does.\<close>

datatype date = Date (year: nat) (month: nat) (day: nat)

definition date_lt :: "date \<Rightarrow> date \<Rightarrow> bool" where
  "date_lt a b =
     (year a < year b \<or> (year a = year b \<and>
       (month a < month b \<or> (month a = month b \<and> day a < day b))))"

definition date_le :: "date \<Rightarrow> date \<Rightarrow> bool" where
  "date_le a b = (date_lt a b \<or> a = b)"

text \<open>\<open>datetime.datetime\<close>: a date, a time of day and an optional UTC offset in minutes.\<close>

datatype datetime =
  DateTime (dt_date: date) (hour: nat) (minute: nat) (second: nat) (microsecond: nat)
    (utcoffset: "int option")

text \<open>
  The values that travel through keyword arguments, \<open>model_dump()\<close> output and tool
  results. A \<open>dict\<close> is an association list in insertion order; \<open>map_of\<close> reads a key.
\<close>

datatype pyval =
    PNone
  | PInt int
  | PFloat real
  | PStr string
  | PDate date
  | PDateTime datetime
  | PList "pyval list"
  | PTuple "pyval list"
  | PDict "(string \<times> pyval) list"

type_synonym pydict = "(string \<times> pyval) list"

subsection \<open>\<open>str.title()\<close> and decimal formatting\<close>

text \<open>
  \<open>str.title()\<close> walks the string once: a character that follows a cased character is
  lower-cased, any other character is title-cased, and the flag for the next character is
  whether this one is cased. On ASCII text the cased characters are the 52 letters and
  title case is upper case. \<open>str_title\<close> is this loop with the ASCII tables; it is
  \<open>str.title()\<close> for strings of ASCII characters.
\<close>

definition lower_letters :: string where
  "lower_letters = ''abcdefghijklmnopqrstuvwxyz''"

definition upper_letters :: string where
  "upper_letters = ''ABCDEFGHIJKLMNOPQRSTUVWXYZ''"

definition islower :: "char \<Rightarrow> bool" where
  "islower c = (c \<in> set lower_letters)"

definition isupper :: "char \<Rightarrow> bool" where
  "isupper c = (c \<in> set upper_letters)"

definition iscased :: "char \<Rightarrow> bool" where
  "iscased c = (islower c \<or> isupper c)"

definition toupper :: "char \<Rightarrow> char" where
  "toupper c = (case map_of (zip lower_letters upper_letters) c of Some u \<Rightarrow> u | None \<Rightarrow> c)"

definition tolower :: "char \<Rightarrow> char" where
  "tolower c = (case map_of (zip upper_letters lower_letters) c of Some l \<Rightarrow> l | None \<Rightarrow> c)"

fun str_title_from :: "bool \<Rightarrow> string \<Rightarrow> string" where
  "str_title_from previous_is_cased [] = []"
| "str_title_from previous_is_cased (c # cs) =
     (if previous_is_cased then tolower c else toupper c) # str_title_from (iscased c) cs"

definition str_title :: "string \<Rightarrow> string" where
  "str_title s = str_title_from False s"

text \<open>
  Beyond ASCII, which characters are cased and what their title and lower case are is
  data of the Unicode character database, which the repository does not hold. There
  \<open>str.title()\<close> is a parameter, \<open>unicode_title\<close>; \<open>py_title\<close> is \<open>str.title()\<close> on every
  string.
\<close>

definition is_ascii :: "string \<Rightarrow> bool" where
  "is_ascii s = list_all (\<lambda>c. (of_char c :: nat) < 128) s"

definition py_title :: "(string \<Rightarrow> string) \<Rightarrow> string \<Rightarrow> string" where
  "py_title unicode_title s = (if is_ascii s then str_title s else unicode_title s)"

text \<open>
  Title case in words, to compare \<open>str_title\<close> with: the letters are the characters with
  codes 65 to 90 and 97 to 122; a letter that starts the string or follows a character
  that is not a letter is in upper case, a letter that follows a letter is in lower
  case, upper and lower case of a letter being 32 apart; every other character is kept.
\<close>

definition is_letter :: "char \<Rightarrow> bool" where
  "is_letter c =
     ((65 \<le> (of_char c :: nat) \<and> (of_char c :: nat) \<le> 90)
      \<or> (97 \<le> (of_char c :: nat) \<and> (of_char c :: nat) \<le> 122))"

definition upper_case :: "char \<Rightarrow> char" where
  "upper_case c =
     (if 97 \<le> (of_char c :: nat) \<and> (of_char c :: nat) \<le> 122
      then char_of ((of_char c :: nat) - 32) else c)"

definition lower_case :: "char \<Rightarrow> char" where
  "lower_case c =
     (if 65 \<le> (of_char c :: nat) \<and> (of_char c :: nat) \<le> 90
      then char_of ((of_char c :: nat) + 32) else c)"

definition title_cased :: "string \<Rightarrow> string" where
  "title_cased s =
     map (\<lambda>i. if 0 < i \<and> is_letter (s ! (i - 1)) then lower_case (s ! i) else upper_case (s ! i))
       [0..<length s]"

definition digit_char :: "nat \<Rightarrow> char" where
  "digit_char d = ''0123456789'' ! (d mod 10)"

fun str_nat :: "nat \<Rightarrow> string" where
  "str_nat n = (if n < 10 then [digit_char n] else str_nat (n div 10) @ [digit_char (n mod 10)])"

section \<open>Settings (\<open>atlas/config.py\<close>)\<close>

record Settings =
  openrouter_api_key :: string
  atlas_llm_model :: string
  openrouter_base_url :: string
  atlas_weather_api_key :: string
  atlas_debug :: bool
  atlas_host :: string
  atlas_port :: int

section \<open>Tools (\<open>atlas/tools\<close>)\<close>

text \<open>The two \<open>httpx\<close> exceptions the tools catch.\<close>

datatype http_exc = HTTPStatusError nat | RequestError string

subsection \<open>\<open>search_destinations\<close>\<close>

text \<open>
  The body of the \<open>try\<close> is the literal placeholder list: the request itself is commented
  out in the source, so \<open>max_results\<close> is never read and no exception of the two
  \<open>except\<close> clauses can arise.
\<close>

definition search_destinations :: "(string \<Rightarrow> string) \<Rightarrow> string \<Rightarrow> int \<Rightarrow> pydict list" where
  "search_destinations unicode_title query max_results =
     [[(''name'', PStr (py_title unicode_title query)),
       (''country'', PStr ''Unknown''),
       (''description'',
          PStr (''Search results for '' @ [CHR 0x27] @ query @ [CHR 0x27] @ '' '' @ em_dash
                @ '' integration pending.'')),
       (''coordinates'', PNone),
       (''note'',
          PStr (''Destination search integration pending '' @ em_dash
                @ '' placeholder data.''))]]"

subsection \<open>\<open>get_weather\<close>\<close>

text \<open>
  \<open>weather_request\<close> is the body of the \<open>try\<close> as written (the HTTP request is commented
  out, the placeholder record is returned); \<open>get_weather_try\<close> is the \<open>try\<close> statement
  with its two \<open>except\<close> clauses, applied to the outcome of the body.
\<close>

definition weather_request :: "string \<Rightarrow> string \<Rightarrow> http_exc + pydict" where
  "weather_request city date' =
     Inr [(''city'', PStr city),
          (''date'', PStr date'),
          (''temp_high_c'', PNone),
          (''temp_low_c'', PNone),
          (''conditions'', PStr ''unknown''),
          (''precipitation_pct'', PNone),
          (''note'', PStr (''Weather integration pending '' @ em_dash @ '' placeholder data.''))]"

definition get_weather_try :: "http_exc + pydict \<Rightarrow> string \<Rightarrow> string \<Rightarrow> pydict" where
  "get_weather_try body city date' =
     (case body of
        Inr data \<Rightarrow> data
      | Inl (HTTPStatusError status_code) \<Rightarrow>
          [(''city'', PStr city),
           (''date'', PStr date'),
           (''error'', PStr (''Weather API returned '' @ str_nat status_code @ ''.''))]
      | Inl (RequestError exc) \<Rightarrow>
          [(''city'', PStr city),
           (''date'', PStr date'),
           (''error'', PStr (''Weather API request failed: '' @ exc))])"

definition get_weather :: "Settings \<Rightarrow> string \<Rightarrow> string \<Rightarrow> pydict" where
  "get_weather cfg city date' =
     (let api_key = atlas_weather_api_key cfg in
      if api_key = [] then
        [(''city'', PStr city),
         (''date'', PStr date'),
         (''error'', PStr (''Weather API key not configured '' @ em_dash
                           @ '' skipping forecast.''))]
      else get_weather_try (weather_request city date') city date')"

section \<open>Conversation loop (\<open>atlas/agents\<close>)\<close>

subsection \<open>System prompt (\<open>prompts.py\<close>)\<close>

definition SYSTEM_PROMPT_lines :: "string list" where
  \<open>SYSTEM_PROMPT_lines =
    [''You are **Atlas**, an expert AI travel assistant.'',
     '''',
     ''## Your mission'',
     ''Help users plan detailed, personalised trips.  You have access to tools'',
     ''for searching destinations, checking weather, and managing itineraries.'',
     ''Use them proactively '' @ em_dash @ '' don't guess when you can look things up.'',
     '''',
     ''## Itinerary format'',
     ''When generating or refining a trip, produce a structured itinerary that'',
     ''includes all of the following:'',
     '''',
     ''### Flights'',
     ''- Suggest outbound and return flights with: airline, flight number,'',
     ''  departure/arrival airports and times, duration, cabin class, and an'',
     ''  estimated cost in USD.'',
     ''- Flights are informational only '' @ em_dash @ '' no booking in v1.'',
     '''',
     ''### Accommodation'',
     ''- Suggest lodging with: property name, star rating, nightly rate,'',
     ''  total cost for the stay, check-in/out dates, location, and a brief'',
     ''  description.'',
     '''',
     ''### Daily activities'',
     ''- Break each day into **time-blocked activities**.  Every activity must'',
     ''  have a ``start_time`` (HH:MM) and ``end_time`` (HH:MM), a category'',
     ''  (sightseeing, food, culture, adventure, or leisure), an'',
     ''  ``estimated_cost_usd``, and a location label.'',
     ''- Between consecutive activities, insert a **TravelSegment** with'',
     ''  transit mode (walk / bus / train / taxi), estimated travel time in'',
     ''  minutes, and a brief route description.'',
     ''- At the end of each day, the sum of activity costs gives the daily'',
     ''  estimate.'',
     '''',
     ''### Budget'',
     ''- Total trip budget = flights + lodging + sum of daily estimates.'',
     ''- Surface the total prominently.'',
     '''',
     ''## Personalisation'',
     ''- At the start of each conversation, load the user's profile (when'',
     ''  available) and use it to tailor destination suggestions, activity'',
     ''  types, pacing, and budget.'',
     ''- The user's **current request always takes priority** over profile'',
     ''  defaults.'',
     ''- When the user saves an itinerary, update their profile to learn from'',
     ''  the new trip.'',
     '''',
     ''## Partial itineraries'',
     ''- If the user provides days that are already planned, **preserve them'',
     ''  exactly** and only generate the missing days.'',
     ''- Ensure geographic and thematic continuity between user-supplied and'',
     ''  generated days (no duplicate activities, logical travel flow).'',
     '''',
     ''## Activity notes'',
     ''- For each activity, include an agent note with practical tips,'',
     ''  official website links, Google Maps links, and source references.'',
     ''- Note any transit concerns when getting from the previous activity'',
     ''  to the current one (e.g. "40 min bus ride '' @ em_dash @ '' different'',
     ''  neighbourhood").'',
     '''',
     ''## Tone & style'',
     ''- Be concise, helpful, and enthusiastic about travel.'',
     ''- Use markdown formatting where appropriate.'',
     ''- If you are uncertain, say so and offer alternatives.'']\<close>

definition SYSTEM_PROMPT :: string where
  "SYSTEM_PROMPT = concat (map (\<lambda>line. line @ [CHR 0x0A]) SYSTEM_PROMPT_lines)"

subsection \<open>Messages and state\<close>

text \<open>
  The message classes of the agent framework, with the fields the repository reads: the
  content, the \<open>tool_calls\<close> of an assistant message, and the name and \<open>tool_call_id\<close>
  by which a tool result is correlated with its request. \<open>message\<close> is what a message
  says; \<open>BaseMessage\<close> is a message as the state holds it, with its optional identifier
  (the field \<open>id\<close>).
\<close>

datatype tool_call = ToolCall (tc_id: string) (tc_name: string) (tc_args: pydict)

datatype message =
    SystemMessage string
  | HumanMessage string
  | AIMessage string "tool_call list"
  | ToolMessage pyval string string

datatype BaseMessage = BaseMessage (message_id: "string option") (payload: message)

datatype py_exc = IndexError | ValueError string

type_synonym AgentState = "message list"

subsection \<open>The \<open>add_messages\<close> reducer\<close>

text \<open>
  The channel \<open>messages\<close> of \<open>AgentState\<close> is annotated with the reducer \<open>add_messages\<close>
  of the graph framework, which merges an update \<open>right\<close> into the messages \<open>left\<close> held
  so far:
  \<^item> every message without an identifier, in \<open>left\<close> and then in \<open>right\<close>, is given a fresh
    one, \<open>str(uuid4())\<close>;
  \<^item> each message of \<open>right\<close> in turn replaces the message that has its identifier, if
    there is one, and is appended otherwise.
  The random draws are an input of the model: \<open>uuids\<close> is the sequence of identifiers that
  \<open>uuid4\<close> returns in this run, and \<open>k\<close> the number of draws made so far. Messages that
  delete others (\<open>RemoveMessage\<close>) are not among the message classes above.
\<close>

fun assign_ids :: "(nat \<Rightarrow> string) \<Rightarrow> nat \<Rightarrow> BaseMessage list \<Rightarrow> BaseMessage list \<times> nat" where
  "assign_ids uuids k [] = ([], k)"
| "assign_ids uuids k (m # ms) =
     (case message_id m of
        None \<Rightarrow>
          (let (ms', k') = assign_ids uuids (Suc k) ms
           in (BaseMessage (Some (uuids k)) (payload m) # ms', k'))
      | Some i \<Rightarrow>
          (let (ms', k') = assign_ids uuids k ms
           in (m # ms', k')))"

text \<open>The index that the reducer's table of identifiers holds for an identifier.\<close>

definition index_by_id :: "BaseMessage list \<Rightarrow> string option \<Rightarrow> nat option" where
  "index_by_id merged mid =
     (case filter (\<lambda>i. message_id (merged ! i) = mid) [0..<length merged] of
        [] \<Rightarrow> None
      | i # is \<Rightarrow> Some (last (i # is)))"

definition merge_message :: "BaseMessage list \<Rightarrow> BaseMessage \<Rightarrow> BaseMessage list" where
  "merge_message merged m =
     (case index_by_id merged (message_id m) of
        Some existing_idx \<Rightarrow> merged[existing_idx := m]
      | None \<Rightarrow> merged @ [m])"

definition add_messages :: "(nat \<Rightarrow> string) \<Rightarrow> nat \<Rightarrow> BaseMessage list \<Rightarrow> BaseMessage list
    \<Rightarrow> BaseMessage list \<times> nat" where
  "add_messages uuids k left right =
     (let (left', k1) = assign_ids uuids k left;
          (right', k2) = assign_ids uuids k1 right
      in (foldl merge_message left' right', k2))"

definition END :: string where
  "END = ''__end__''"

subsection \<open>Nodes and routing (\<open>travel_agent.py\<close>)\<close>

text \<open>\<open>agent_node\<close> returns the update \<open>{"messages": [response]}\<close>.\<close>

definition agent_node :: "('m list \<Rightarrow> 'm) \<Rightarrow> 'm list \<Rightarrow> 'm list" where
  "agent_node llm_with_tools state = (let response = llm_with_tools state in [response])"

text \<open>\<open>state["messages"][-1]\<close> raises IndexError on an empty list.\<close>

definition should_continue :: "AgentState \<Rightarrow> py_exc + string" where
  "should_continue state =
     (if state = [] then Inl IndexError
      else
        (let last_message = last state in
         case last_message of
           AIMessage content tool_calls \<Rightarrow> if tool_calls \<noteq> [] then Inr ''tools'' else Inr END
         | _ \<Rightarrow> Inr END))"

text \<open>
  The prebuilt tool node: it runs the tool calls of the last message, which must be an
  assistant message, in request order, and returns one tool message per call, carrying
  the call's name and identifier. \<open>invoke_tool\<close> stands for the dispatch over
  \<open>ALL_TOOLS\<close>.
\<close>

definition tool_message :: "(tool_call \<Rightarrow> pyval) \<Rightarrow> tool_call \<Rightarrow> message" where
  "tool_message invoke_tool call = ToolMessage (invoke_tool call) (tc_name call) (tc_id call)"

definition tool_node :: "(tool_call \<Rightarrow> pyval) \<Rightarrow> AgentState \<Rightarrow> py_exc + message list" where
  "tool_node invoke_tool state =
     (if state = [] then Inl (ValueError ''No message found in input'')
      else
        (case last state of
           AIMessage content tool_calls \<Rightarrow> Inr (map (tool_message invoke_tool) tool_calls)
         | _ \<Rightarrow> Inl (ValueError ''Last message is not an AIMessage'')))"

subsection \<open>The compiled graph\<close>

text \<open>
  The graph of \<open>build_travel_agent\<close>: entry point \<open>agent\<close>, the conditional edge
  \<open>should_continue\<close> after it, and the edge from \<open>tools\<close> back to \<open>agent\<close>; the update
  a node returns goes through the reducer. Each node execution uses one unit of the
  step budget; \<open>None\<close> means the budget ran out before the graph reached END. Next to
  the state the run keeps a record of the calls made to the model and to the tools, and
  the number of identifiers drawn.
\<close>

datatype 'm event = ModelCall "'m list" | ToolRun tool_call

datatype node = agent | tools

fun run_graph_ids :: "(BaseMessage list \<Rightarrow> BaseMessage) \<Rightarrow> (tool_call \<Rightarrow> pyval) \<Rightarrow> (nat \<Rightarrow> string)
    \<Rightarrow> nat \<Rightarrow> node \<Rightarrow> BaseMessage list \<times> BaseMessage event list \<times> nat
    \<Rightarrow> (py_exc + BaseMessage list \<times> BaseMessage event list \<times> nat) option"
and conditional_edge_ids :: "(BaseMessage list \<Rightarrow> BaseMessage) \<Rightarrow> (tool_call \<Rightarrow> pyval)
    \<Rightarrow> (nat \<Rightarrow> string) \<Rightarrow> nat \<Rightarrow> BaseMessage list \<times> BaseMessage event list \<times> nat
    \<Rightarrow> (py_exc + BaseMessage list \<times> BaseMessage event list \<times> nat) option"
where
  "run_graph_ids llm invoke_tool uuids 0 nd st = None"
| "run_graph_ids llm invoke_tool uuids (Suc n) agent (state, calls, k) =
     (let (state', k') = add_messages uuids k state (agent_node llm state)
      in conditional_edge_ids llm invoke_tool uuids n (state', calls @ [ModelCall state], k'))"
| "run_graph_ids llm invoke_tool uuids (Suc n) tools (state, calls, k) =
     (case tool_node invoke_tool (map payload state) of
        Inl e \<Rightarrow> Some (Inl e)
      | Inr results \<Rightarrow>
          (let (state', k') = add_messages uuids k state (map (BaseMessage None) results)
           in run_graph_ids llm invoke_tool uuids n agent
                (state',
                 calls @ map ToolRun
                   (case payload (last state) of AIMessage c tcs \<Rightarrow> tcs | _ \<Rightarrow> []),
                 k')))"
| "conditional_edge_ids llm invoke_tool uuids n (state, calls, k) =
     (case should_continue (map payload state) of
        Inl e \<Rightarrow> Some (Inl e)
      | Inr route \<Rightarrow>
          if route = ''tools'' then run_graph_ids llm invoke_tool uuids n tools (state, calls, k)
          else Some (Inr (state, calls, k)))"

text \<open>
  \<open>graph.invoke({"messages": input})\<close>: the input goes through the reducer into the
  empty channel, then the graph runs from its entry point.
\<close>

definition graph_invoke :: "(BaseMessage list \<Rightarrow> BaseMessage) \<Rightarrow> (tool_call \<Rightarrow> pyval)
    \<Rightarrow> (nat \<Rightarrow> string) \<Rightarrow> nat \<Rightarrow> BaseMessage list
    \<Rightarrow> (py_exc + BaseMessage list \<times> BaseMessage event list \<times> nat) option" where
  "graph_invoke llm invoke_tool uuids budget input =
     (let (state, k) = add_messages uuids 0 [] input
      in run_graph_ids llm invoke_tool uuids budget agent (state, [], k))"

subsection \<open>\<open>invoke_agent\<close>\<close>

text \<open>The message list \<open>invoke_agent\<close> builds before it invokes the graph.\<close>

definition seed_messages :: "string \<Rightarrow> BaseMessage list option \<Rightarrow> BaseMessage list" where
  "seed_messages user_message chat_history =
     (let messages0 = [BaseMessage None (SystemMessage SYSTEM_PROMPT)];
          messages1 = (case chat_history of
                         None \<Rightarrow> messages0
                       | Some h \<Rightarrow> if h \<noteq> [] then messages0 @ h else messages0)
      in messages1 @ [BaseMessage None (HumanMessage user_message)])"

text \<open>\<open>result["messages"][-1]\<close> of a finished run.\<close>

definition last_message :: "(py_exc + BaseMessage list \<times> BaseMessage event list \<times> nat) option
    \<Rightarrow> (py_exc + BaseMessage) option" where
  "last_message result =
     (case result of
        None \<Rightarrow> None
      | Some (Inl e) \<Rightarrow> Some (Inl e)
      | Some (Inr (state, calls, k)) \<Rightarrow>
          (if state = [] then Some (Inl IndexError) else Some (Inr (last state))))"

definition invoke_agent :: "(BaseMessage list \<Rightarrow> BaseMessage) \<Rightarrow> (tool_call \<Rightarrow> pyval)
    \<Rightarrow> (nat \<Rightarrow> string) \<Rightarrow> nat \<Rightarrow> string \<Rightarrow> BaseMessage list option
    \<Rightarrow> (py_exc + BaseMessage) option" where
  "invoke_agent llm invoke_tool uuids budget user_message chat_history =
     (let messages = seed_messages user_message chat_history;
          result = graph_invoke llm invoke_tool uuids budget messages
      in last_message result)"

subsection \<open>The graph on what the messages say\<close>

text \<open>
  A message whose identifier is new is appended by the reducer. So as long as no
  identifier repeats, the graph acts on what the messages say as follows: the state is
  the list of messages without their identifiers and an update is appended to it. A
  model that reads what the messages say and answers without an identifier is a function
  \<open>llm\<close> on such lists; \<open>on_contents llm\<close> is that model on the messages of the state.
\<close>

definition on_contents :: "(message list \<Rightarrow> message) \<Rightarrow> BaseMessage list \<Rightarrow> BaseMessage" where
  "on_contents llm state = BaseMessage None (llm (map payload state))"

fun run_graph :: "(message list \<Rightarrow> message) \<Rightarrow> (tool_call \<Rightarrow> pyval) \<Rightarrow> nat \<Rightarrow> node
    \<Rightarrow> AgentState \<times> message event list \<Rightarrow> (py_exc + AgentState \<times> message event list) option"
and conditional_edge :: "(message list \<Rightarrow> message) \<Rightarrow> (tool_call \<Rightarrow> pyval) \<Rightarrow> nat
    \<Rightarrow> AgentState \<times> message event list \<Rightarrow> (py_exc + AgentState \<times> message event list) option"
where
  "run_graph llm invoke_tool 0 nd st = None"
| "run_graph llm invoke_tool (Suc n) agent (state, calls) =
     conditional_edge llm invoke_tool n
       (state @ agent_node llm state, calls @ [ModelCall state])"
| "run_graph llm invoke_tool (Suc n) tools (state, calls) =
     (case tool_node invoke_tool state of
        Inl e \<Rightarrow> Some (Inl e)
      | Inr results \<Rightarrow>
          run_graph llm invoke_tool n agent
            (state @ results,
             calls @ map ToolRun (case last state of AIMessage c tcs \<Rightarrow> tcs | _ \<Rightarrow> [])))"
| "conditional_edge llm invoke_tool n (state, calls) =
     (case should_continue state of
        Inl e \<Rightarrow> Some (Inl e)
      | Inr route \<Rightarrow>
          if route = ''tools'' then run_graph llm invoke_tool n tools (state, calls)
          else Some (Inr (state, calls)))"

text \<open>What a state of the compiled graph says: the messages and the record without identifiers.\<close>

definition event_contents :: "BaseMessage event \<Rightarrow> message event" where
  "event_contents ev =
     (case ev of ModelCall state \<Rightarrow> ModelCall (map payload state) | ToolRun call \<Rightarrow> ToolRun call)"

definition contents :: "(py_exc + BaseMessage list \<times> BaseMessage event list \<times> nat) option
    \<Rightarrow> (py_exc + AgentState \<times> message event list) option" where
  "contents result =
     (case result of
        None \<Rightarrow> None
      | Some (Inl e) \<Rightarrow> Some (Inl e)
      | Some (Inr (state, calls, k)) \<Rightarrow> Some (Inr (map payload state, map event_contents calls)))"

text \<open>
  A state whose identifiers are in order after \<open>k\<close> draws: every message has an
  identifier, no two messages share one, and none of them is drawn later.
\<close>

definition settled :: "(nat \<Rightarrow> string) \<Rightarrow> nat \<Rightarrow> BaseMessage list \<Rightarrow> bool" where
  "settled uuids k state =
     ((\<forall>m \<in> set state. message_id m \<noteq> None)
      \<and> distinct (map message_id state)
      \<and> (\<forall>m \<in> set state. \<forall>j \<ge> k. message_id m \<noteq> Some (uuids j)))"

text \<open>
  Identifiers that cannot collide: the identifiers that the messages bring with them
  are pairwise distinct and are never drawn, and no identifier is drawn twice.
\<close>

definition given_ids :: "BaseMessage list \<Rightarrow> string list" where
  "given_ids ms = List.map_filter message_id ms"

definition collision_free :: "(nat \<Rightarrow> string) \<Rightarrow> BaseMessage list \<Rightarrow> bool" where
  "collision_free uuids ms =
     (inj uuids \<and> distinct (given_ids ms) \<and> (\<forall>j. uuids j \<notin> set (given_ids ms)))"

subsection \<open>The steps of the graph as a relation\<close>

text \<open>
  The steps of the graph on what the messages say, for a model and tools given as
  relations between input and possible output: \<open>model state response\<close> says that the
  model may answer \<open>response\<close> to \<open>state\<close>, \<open>tool call v\<close> that the tool call may return
  \<open>v\<close>.
\<close>

datatype position = at_node node | at_end

text \<open>The tool messages the tool node may return for a list of calls, in request order.\<close>

inductive tool_results :: "(tool_call \<Rightarrow> pyval \<Rightarrow> bool) \<Rightarrow> tool_call list \<Rightarrow> message list \<Rightarrow> bool"
  for tool :: "tool_call \<Rightarrow> pyval \<Rightarrow> bool"
where
  no_calls: "tool_results tool [] []"
| next_call:
    "tool call v \<Longrightarrow> tool_results tool calls results \<Longrightarrow>
     tool_results tool (call # calls) (ToolMessage v (tc_name call) (tc_id call) # results)"

code_pred tool_results .

inductive graph_step :: "(message list \<Rightarrow> message \<Rightarrow> bool) \<Rightarrow> (tool_call \<Rightarrow> pyval \<Rightarrow> bool)
    \<Rightarrow> position \<times> AgentState \<Rightarrow> position \<times> AgentState \<Rightarrow> bool"
  for model :: "message list \<Rightarrow> message \<Rightarrow> bool" and tool :: "tool_call \<Rightarrow> pyval \<Rightarrow> bool"
where
  agent_to_tools:
    "model state response \<Longrightarrow>
     should_continue (state @ [response]) = Inr ''tools'' \<Longrightarrow>
     graph_step model tool (at_node agent, state) (at_node tools, state @ [response])"
| agent_to_end:
    "model state response \<Longrightarrow>
     should_continue (state @ [response]) = Inr END \<Longrightarrow>
     graph_step model tool (at_node agent, state) (at_end, state @ [response])"
| tools_to_agent:
    "state \<noteq> [] \<Longrightarrow>
     last state = AIMessage ai_text tool_calls \<Longrightarrow>
     tool_results tool tool_calls results \<Longrightarrow>
     graph_step model tool (at_node tools, state) (at_node agent, state @ results)"

code_pred graph_step .

subsection \<open>Stubs for running the loop\<close>

text \<open>
  \<open>test_settings\<close> and \<open>mock_llm\<close> are the settings and the model stub of the test suite:
  no weather key, and a model that always answers in plain text. \<open>kyoto_llm\<close> is the stub
  of the documented weather scenario: it requests the weather for Kyoto first and answers
  in plain text once the last message is a tool result. \<open>weather_only\<close> runs
  \<open>get_weather\<close> on the \<open>city\<close> and \<open>date\<close> arguments of a call.
\<close>

definition test_settings :: Settings where
  "test_settings =
     \<lparr>openrouter_api_key = ''test-key-not-real'', atlas_llm_model = ''openai/gpt-4o'',
      openrouter_base_url = ''https://openrouter.ai/api/v1'', atlas_weather_api_key = [],
      atlas_debug = False, atlas_host = ''127.0.0.1'', atlas_port = 8050\<rparr>"

definition mock_llm :: "message list \<Rightarrow> message" where
  "mock_llm state = AIMessage ''Mock response from Atlas.'' []"

definition kyoto_call :: tool_call where
  "kyoto_call =
     ToolCall ''call_1'' ''get_weather'' [(''city'', PStr ''Kyoto''), (''date'', PStr ''2025-04-01'')]"

definition kyoto_llm :: "message list \<Rightarrow> message" where
  "kyoto_llm state =
     (case last state of
        ToolMessage v name' call_id \<Rightarrow> AIMessage ''Pack an umbrella.'' []
      | _ \<Rightarrow> AIMessage [] [kyoto_call])"

definition weather_only :: "Settings \<Rightarrow> tool_call \<Rightarrow> pyval" where
  "weather_only cfg call =
     (case (map_of (tc_args call) ''city'', map_of (tc_args call) ''date'') of
        (Some (PStr city), Some (PStr date')) \<Rightarrow> PDict (get_weather cfg city date')
      | _ \<Rightarrow> PNone)"

text \<open>
  \<open>describe_llm\<close> is a model stub whose answer depends on all it is given: the roles of
  the messages in order and the text of the last message. \<open>draws c\<close> is a sequence of
  identifier draws, the first draw one \<open>c\<close>, the second two, and so on.
\<close>

definition role_of :: "message \<Rightarrow> string" where
  "role_of m =
     (case m of
        SystemMessage t \<Rightarrow> ''system''
      | HumanMessage t \<Rightarrow> ''human''
      | AIMessage t calls \<Rightarrow> ''ai''
      | ToolMessage v n i \<Rightarrow> ''tool'')"

definition text_of :: "message \<Rightarrow> string" where
  "text_of m =
     (case m of
        SystemMessage t \<Rightarrow> t
      | HumanMessage t \<Rightarrow> t
      | AIMessage t calls \<Rightarrow> t
      | ToolMessage v n i \<Rightarrow> [])"

definition describe_llm :: "message list \<Rightarrow> message" where
  "describe_llm state =
     AIMessage (concat (map (\<lambda>m. role_of m @ '' '') state) @ text_of (last state)) []"

definition draws :: "char \<Rightarrow> nat \<Rightarrow> string" where
  "draws c n = replicate (Suc n) c"

section \<open>Domain models (\<open>atlas/domain/models.py\<close>)\<close>

subsection \<open>Enums\<close>

text \<open>
  Each enum is a \<open>str\<close> enum: a member equals its string value, so a member travels as
  that string, and validation maps the string back through the table of members.
\<close>

datatype ActivityCategory = SIGHTSEEING | FOOD | CULTURE | ADVENTURE | LEISURE

definition ActivityCategory_members :: "(string \<times> ActivityCategory) list" where
  "ActivityCategory_members =
     [(''sightseeing'', SIGHTSEEING), (''food'', FOOD), (''culture'', CULTURE),
      (''adventure'', ADVENTURE), (''leisure'', LEISURE)]"

datatype TripPace = RELAXED | MODERATE | PACKED

definition TripPace_members :: "(string \<times> TripPace) list" where
  "TripPace_members = [(''relaxed'', RELAXED), (''moderate'', MODERATE), (''packed'', PACKED)]"

datatype TransitMode = WALK | BUS | TRAIN | TAXI | OTHER

definition TransitMode_members :: "(string \<times> TransitMode) list" where
  "TransitMode_members =
     [(''walk'', WALK), (''bus'', BUS), (''train'', TRAIN), (''taxi'', TAXI), (''other'', OTHER)]"

datatype DaySource = USER | GENERATED | REFINED

definition DaySource_members :: "(string \<times> DaySource) list" where
  "DaySource_members =
     [(''user'', DaySource.USER), (''generated'', GENERATED), (''refined'', REFINED)]"

datatype NoteAuthor = AGENT | USER

definition NoteAuthor_members :: "(string \<times> NoteAuthor) list" where
  "NoteAuthor_members = [(''agent'', AGENT), (''user'', NoteAuthor.USER)]"

text \<open>The string value of a member: the key under which the table lists it.\<close>

definition enum_value :: "(string \<times> 'a) list \<Rightarrow> 'a \<Rightarrow> string" where
  "enum_value members m = (case map_of (map (\<lambda>(s, x). (x, s)) members) m of Some s \<Rightarrow> s | None \<Rightarrow> [])"

subsection \<open>Model classes\<close>

text \<open>
  One datatype per class, the fields in declaration order. A field shared by several
  classes is read with the class name in front (\<open>Activity.description\<close>). The field
  \<open>notes\<close> is written \<open>notes'\<close>, since \<open>notes\<close> is a keyword of the theory language.
\<close>

datatype TripPreferences = TripPreferences
  (traveler_count: int)
  (budget_usd: "real option")
  (interests: "string list")
  (accessibility_needs: "string list")
  (pace: TripPace)

datatype Destination = Destination
  (name: string)
  (country: string)
  (iata_code: "string option")
  (coordinates: "(real \<times> real) option")

datatype ActivityNote = ActivityNote
  (author: NoteAuthor)
  (content: string)
  (links: "string list")
  (tags: "string list")

datatype Activity = Activity
  (title: string)
  (description: string)
  (duration_hours: real)
  (category: ActivityCategory)
  (start_time: "string option")
  (end_time: "string option")
  (estimated_cost_usd: "real option")
  (location: "string option")
  (coordinates: "(real \<times> real) option")
  (notes': "ActivityNote list")

datatype TravelSegment = TravelSegment
  (mode: TransitMode)
  (duration_minutes: int)
  (description: string)
  (estimated_cost_usd: "real option")

datatype ItineraryDay = ItineraryDay
  (date: date)
  (activities: "Activity list")
  (travel_segments: "TravelSegment list")
  (notes': string)
  (source: DaySource)

datatype Flight = Flight
  (airline: string)
  (flight_number: string)
  (departure_airport: string)
  (arrival_airport: string)
  (departure_time: datetime)
  (arrival_time: datetime)
  (duration_hours: real)
  (cabin_class: string)
  (estimated_cost_usd: "real option")

datatype Accommodation = Accommodation
  (name: string)
  (star_rating: "real option")
  (nightly_rate_usd: "real option")
  (total_cost_usd: "real option")
  (check_in: date)
  (check_out: date)
  (description: string)
  (location: "string option")
  (coordinates: "(real \<times> real) option")

datatype Itinerary = Itinerary
  (destination: Destination)
  (start_date: date)
  (end_date: date)
  (preferences: TripPreferences)
  (days: "ItineraryDay list")
  (flights: "Flight list")
  (accommodations: "Accommodation list")
  (created_at: datetime)

datatype ChatMessage = ChatMessage
  (role: string)
  (content: string)
  (timestamp: datetime)

datatype UserProfile = UserProfile
  (favourite_destination_types: "string list")
  (favourite_categories: "string list")
  (preferred_pace: TripPace)
  (typical_budget_usd: "real option")
  (past_destinations: "string list")
  (trip_count: int)
  (updated_at: datetime)

subsection \<open>ISO 8601 text of dates and times\<close>

text \<open>
  In JSON mode a date is written as \<open>YYYY-MM-DD\<close> and a datetime as
  \<open>YYYY-MM-DDTHH:MM:SS\<close>, followed by a point and six digits of microseconds when these
  are not zero, followed by nothing for a naive datetime, \<open>Z\<close> for a UTC offset of zero
  and \<open>+HH:MM\<close> or \<open>-HH:MM\<close> for any other offset. Validation reads these texts back
  and rejects a text whose numbers are not a date or a time of day. Other spellings that
  the validation library also reads (a shorter fraction, a blank for the \<open>T\<close>, and so
  on) are not modelled.
\<close>

definition zero_pad :: "nat \<Rightarrow> nat \<Rightarrow> string" where
  "zero_pad width n = replicate (width - length (str_nat n)) (CHR ''0'') @ str_nat n"

definition digit_val :: "char \<Rightarrow> nat option" where
  "digit_val c = map_of (zip ''0123456789'' [0..<10]) c"

fun digits_val :: "nat \<Rightarrow> string \<Rightarrow> nat option" where
  "digits_val acc [] = Some acc"
| "digits_val acc (c # cs) =
     (case digit_val c of None \<Rightarrow> None | Some d \<Rightarrow> digits_val (10 * acc + d) cs)"

text \<open>A date and a time of day as Python's \<open>date\<close> and \<open>datetime\<close> objects can hold them.\<close>

definition is_leap :: "nat \<Rightarrow> bool" where
  "is_leap y = (y mod 4 = 0 \<and> (y mod 100 \<noteq> 0 \<or> y mod 400 = 0))"

definition days_in_month :: "nat \<Rightarrow> nat \<Rightarrow> nat" where
  "days_in_month y m =
     (if m = 2 then (if is_leap y then 29 else 28)
      else if m = 4 \<or> m = 6 \<or> m = 9 \<or> m = 11 then 30 else 31)"

definition valid_date :: "date \<Rightarrow> bool" where
  "valid_date d =
     (1 \<le> year d \<and> year d \<le> 9999 \<and> 1 \<le> month d \<and> month d \<le> 12
      \<and> 1 \<le> day d \<and> day d \<le> days_in_month (year d) (month d))"

definition valid_datetime :: "datetime \<Rightarrow> bool" where
  "valid_datetime t =
     (valid_date (dt_date t) \<and> hour t < 24 \<and> minute t < 60 \<and> second t < 60
      \<and> microsecond t < 1000000
      \<and> (case utcoffset t of None \<Rightarrow> True | Some off \<Rightarrow> - 1440 < off \<and> off < 1440))"

definition date_isoformat :: "date \<Rightarrow> string" where
  "date_isoformat d =
     zero_pad 4 (year d) @ ''-'' @ zero_pad 2 (month d) @ ''-'' @ zero_pad 2 (day d)"

definition offset_isoformat :: "int option \<Rightarrow> string" where
  "offset_isoformat tz =
     (case tz of
        None \<Rightarrow> []
      | Some off \<Rightarrow>
          if off = 0 then ''Z''
          else (if off < 0 then ''-'' else ''+'')
               @ zero_pad 2 (nat \<bar>off\<bar> div 60) @ '':'' @ zero_pad 2 (nat \<bar>off\<bar> mod 60))"

definition datetime_isoformat :: "datetime \<Rightarrow> string" where
  "datetime_isoformat t =
     date_isoformat (dt_date t) @ ''T''
     @ zero_pad 2 (hour t) @ '':'' @ zero_pad 2 (minute t) @ '':'' @ zero_pad 2 (second t)
     @ (if microsecond t = 0 then [] else ''.'' @ zero_pad 6 (microsecond t))
     @ offset_isoformat (utcoffset t)"

text \<open>
  The readers take a date or a time of day from the front of a text and return it with
  the rest of the text.
\<close>

fun read_date :: "string \<Rightarrow> (date \<times> string) option" where
  "read_date (y1 # y2 # y3 # y4 # s1 # m1 # m2 # s2 # d1 # d2 # rest) =
     (if s1 = CHR ''-'' \<and> s2 = CHR ''-'' then
        (case (digits_val 0 [y1, y2, y3, y4], digits_val 0 [m1, m2], digits_val 0 [d1, d2]) of
           (Some y, Some m, Some d) \<Rightarrow>
             if valid_date (Date y m d) then Some (Date y m d, rest) else None
         | _ \<Rightarrow> None)
      else None)"
| "read_date _ = None"

fun read_time :: "string \<Rightarrow> ((nat \<times> nat \<times> nat) \<times> string) option" where
  "read_time (h1 # h2 # s1 # m1 # m2 # s2 # c1 # c2 # rest) =
     (if s1 = CHR '':'' \<and> s2 = CHR '':'' then
        (case (digits_val 0 [h1, h2], digits_val 0 [m1, m2], digits_val 0 [c1, c2]) of
           (Some h, Some m, Some s) \<Rightarrow>
             if h < 24 \<and> m < 60 \<and> s < 60 then Some ((h, m, s), rest) else None
         | _ \<Rightarrow> None)
      else None)"
| "read_time _ = None"

fun read_fraction :: "string \<Rightarrow> (nat \<times> string) option" where
  "read_fraction (p # f1 # f2 # f3 # f4 # f5 # f6 # rest) =
     (if p = CHR ''.'' then
        (case digits_val 0 [f1, f2, f3, f4, f5, f6] of
           Some us \<Rightarrow> Some (us, rest)
         | None \<Rightarrow> None)
      else Some (0, p # f1 # f2 # f3 # f4 # f5 # f6 # rest))"
| "read_fraction s = (if s \<noteq> [] \<and> hd s = CHR ''.'' then None else Some (0, s))"

fun read_offset :: "string \<Rightarrow> int option option" where
  "read_offset [] = Some None"
| "read_offset [z] = (if z = CHR ''Z'' then Some (Some 0) else None)"
| "read_offset [sg, h1, h2, s1, m1, m2] =
     (if (sg = CHR ''+'' \<or> sg = CHR ''-'') \<and> s1 = CHR '':'' then
        (case (digits_val 0 [h1, h2], digits_val 0 [m1, m2]) of
           (Some h, Some m) \<Rightarrow>
             if h < 24 \<and> m < 60
             then Some (Some ((if sg = CHR ''-'' then - 1 else 1) * int (h * 60 + m)))
             else None
         | _ \<Rightarrow> None)
      else None)"
| "read_offset _ = None"

definition date_fromisoformat :: "string \<Rightarrow> date option" where
  "date_fromisoformat s =
     (case read_date s of Some (d, rest) \<Rightarrow> if rest = [] then Some d else None | None \<Rightarrow> None)"

definition datetime_fromisoformat :: "string \<Rightarrow> datetime option" where
  "datetime_fromisoformat s =
     (case read_date s of
        None \<Rightarrow> None
      | Some (d, rest) \<Rightarrow>
          (case rest of
             [] \<Rightarrow> None
           | sep # rest1 \<Rightarrow>
               if sep \<noteq> CHR ''T'' then None
               else
                 (case read_time rest1 of
                    None \<Rightarrow> None
                  | Some ((h, m, s), rest2) \<Rightarrow>
                      (case read_fraction rest2 of
                         None \<Rightarrow> None
                       | Some (us, rest3) \<Rightarrow>
                           (case read_offset rest3 of
                              None \<Rightarrow> None
                            | Some tz \<Rightarrow> Some (DateTime d h m s us tz))))))"

text \<open>The digits of a number in a field of fixed width, most significant first.\<close>

fun digits_of :: "nat \<Rightarrow> nat \<Rightarrow> string" where
  "digits_of 0 n = []"
| "digits_of (Suc k) n = digits_of k (n div 10) @ [digit_char (n mod 10)]"

subsection \<open>Validation errors and field validators\<close>

text \<open>
  A \<open>ValidationError\<close> is a list of error lines, each with the location of the offending
  value (field names and list indices from the model down) and a type. Validation of a
  model visits every field and reports all error lines, in field order.

  The validators accept the values that \<open>model_dump\<close> produces in either mode: for a
  date or datetime field the object or its ISO 8601 text, for a \<open>float\<close> field a float
  or an \<open>int\<close>, for a list or tuple field a list or a tuple. The further conversions of
  the validation library from other input shapes (numeric strings, timestamps and so on)
  are not modelled: such input is outside the theorems below.
\<close>

datatype loc_item = Key string | Idx nat

datatype error_type = missing | invalid_type string | value_error string | frozen_instance

datatype error_line = ErrorDetails (loc: "loc_item list") (err: error_type)

type_synonym 'a validated = "error_line list + 'a"

definition under :: "loc_item \<Rightarrow> 'a validated \<Rightarrow> 'a validated" where
  "under l r =
     (case r of
        Inl es \<Rightarrow> Inl (map (\<lambda>e. ErrorDetails (l # loc e) (err e)) es)
      | Inr v \<Rightarrow> Inr v)"

text \<open>Applying a constructor to one more validated field, keeping every error line.\<close>

definition field :: "('a \<Rightarrow> 'b) validated \<Rightarrow> 'a validated \<Rightarrow> 'b validated" where
  "field f r =
     (case f of
        Inl es \<Rightarrow> (case r of Inl es' \<Rightarrow> Inl (es @ es') | Inr v \<Rightarrow> Inl es)
      | Inr g \<Rightarrow> (case r of Inl es' \<Rightarrow> Inl es' | Inr v \<Rightarrow> Inr (g v)))"

definition required :: "string \<Rightarrow> (pyval \<Rightarrow> 'a validated) \<Rightarrow> pydict \<Rightarrow> 'a validated" where
  "required key v kw =
     (case map_of kw key of
        None \<Rightarrow> Inl [ErrorDetails [Key key] missing]
      | Some x \<Rightarrow> under (Key key) (v x))"

text \<open>A field with a default: the default is taken as it is, without validation.\<close>

definition with_default :: "string \<Rightarrow> 'a \<Rightarrow> (pyval \<Rightarrow> 'a validated) \<Rightarrow> pydict \<Rightarrow> 'a validated" where
  "with_default key d v kw =
     (case map_of kw key of
        None \<Rightarrow> Inr d
      | Some x \<Rightarrow> under (Key key) (v x))"

definition v_int :: "pyval \<Rightarrow> int validated" where
  "v_int x = (case x of PInt n \<Rightarrow> Inr n | _ \<Rightarrow> Inl [ErrorDetails [] (invalid_type ''int'')])"

definition v_float :: "pyval \<Rightarrow> real validated" where
  "v_float x =
     (case x of
        PFloat r \<Rightarrow> Inr r
      | PInt n \<Rightarrow> Inr (of_int n)
      | _ \<Rightarrow> Inl [ErrorDetails [] (invalid_type ''float'')])"

definition v_str :: "pyval \<Rightarrow> string validated" where
  "v_str x = (case x of PStr s \<Rightarrow> Inr s | _ \<Rightarrow> Inl [ErrorDetails [] (invalid_type ''string'')])"

definition v_date :: "pyval \<Rightarrow> date validated" where
  "v_date x =
     (case x of
        PDate d \<Rightarrow> Inr d
      | PStr s \<Rightarrow>
          (case date_fromisoformat s of
             Some d \<Rightarrow> Inr d
           | None \<Rightarrow> Inl [ErrorDetails [] (invalid_type ''date'')])
      | _ \<Rightarrow> Inl [ErrorDetails [] (invalid_type ''date'')])"

definition v_datetime :: "pyval \<Rightarrow> datetime validated" where
  "v_datetime x =
     (case x of
        PDateTime t \<Rightarrow> Inr t
      | PStr s \<Rightarrow>
          (case datetime_fromisoformat s of
             Some t \<Rightarrow> Inr t
           | None \<Rightarrow> Inl [ErrorDetails [] (invalid_type ''datetime'')])
      | _ \<Rightarrow> Inl [ErrorDetails [] (invalid_type ''datetime'')])"

definition v_enum :: "(string \<times> 'a) list \<Rightarrow> pyval \<Rightarrow> 'a validated" where
  "v_enum members x =
     (case x of
        PStr s \<Rightarrow>
          (case map_of members s of
             Some m \<Rightarrow> Inr m
           | None \<Rightarrow> Inl [ErrorDetails [] (invalid_type ''enum'')])
      | _ \<Rightarrow> Inl [ErrorDetails [] (invalid_type ''enum'')])"

text \<open>\<open>T | None\<close>\<close>

definition v_optional :: "(pyval \<Rightarrow> 'a validated) \<Rightarrow> pyval \<Rightarrow> 'a option validated" where
  "v_optional v x = (case x of PNone \<Rightarrow> Inr None | _ \<Rightarrow> field (Inr Some) (v x))"

text \<open>\<open>list[T]\<close>: every item is validated, at its index.\<close>

fun v_items :: "(pyval \<Rightarrow> 'a validated) \<Rightarrow> nat \<Rightarrow> pyval list \<Rightarrow> 'a list validated" where
  "v_items v i [] = Inr []"
| "v_items v i (x # xs) = field (field (Inr Cons) (under (Idx i) (v x))) (v_items v (Suc i) xs)"

definition v_list :: "(pyval \<Rightarrow> 'a validated) \<Rightarrow> pyval \<Rightarrow> 'a list validated" where
  "v_list v x =
     (case x of
        PList xs \<Rightarrow> v_items v 0 xs
      | PTuple xs \<Rightarrow> v_items v 0 xs
      | _ \<Rightarrow> Inl [ErrorDetails [] (invalid_type ''list'')])"

text \<open>\<open>tuple[float, float]\<close>\<close>

definition v_float_pair :: "pyval \<Rightarrow> (real \<times> real) validated" where
  "v_float_pair x =
     (let items = (case x of PTuple xs \<Rightarrow> Some xs | PList xs \<Rightarrow> Some xs | _ \<Rightarrow> None) in
      case items of
        Some [a, b] \<Rightarrow> field (field (Inr Pair) (under (Idx 0) (v_float a))) (under (Idx 1) (v_float b))
      | _ \<Rightarrow> Inl [ErrorDetails [] (invalid_type ''tuple'')])"

text \<open>
  \<open>model_dump(mode=...)\<close>: in Python mode a date, a datetime and a tuple are written as
  the objects they are; in JSON mode a date and a datetime are written as ISO 8601 text
  and a tuple as a list. The other values are written the same way in both modes.
\<close>

datatype dump_mode = python | json

definition dump_optional :: "('a \<Rightarrow> pyval) \<Rightarrow> 'a option \<Rightarrow> pyval" where
  "dump_optional d x = (case x of None \<Rightarrow> PNone | Some v \<Rightarrow> d v)"

definition dump_date :: "dump_mode \<Rightarrow> date \<Rightarrow> pyval" where
  "dump_date md d = (case md of python \<Rightarrow> PDate d | json \<Rightarrow> PStr (date_isoformat d))"

definition dump_datetime :: "dump_mode \<Rightarrow> datetime \<Rightarrow> pyval" where
  "dump_datetime md t =
     (case md of python \<Rightarrow> PDateTime t | json \<Rightarrow> PStr (datetime_isoformat t))"

definition dump_float_pair :: "dump_mode \<Rightarrow> real \<times> real \<Rightarrow> pyval" where
  "dump_float_pair md p =
     (case md of
        python \<Rightarrow> PTuple [PFloat (fst p), PFloat (snd p)]
      | json \<Rightarrow> PList [PFloat (fst p), PFloat (snd p)])"

definition dump_enum :: "(string \<times> 'a) list \<Rightarrow> 'a \<Rightarrow> pyval" where
  "dump_enum members m = PStr (enum_value members m)"

subsection \<open>\<open>model_dump\<close> and \<open>model_validate\<close> of each class\<close>

text \<open>
  \<open>model_dump\<close> writes a model as the dict of its fields, in declaration order, nested
  models as dicts. \<open>model_validate\<close>, which is also what the constructor runs on its
  keyword arguments, reads a dict: a required field that is absent is an error, an
  absent field with a default takes the default, keys that name no field are ignored.
  Where a default is the current time, the time is the argument \<open>now\<close>.
\<close>

definition TripPreferences_dump :: "dump_mode \<Rightarrow> TripPreferences \<Rightarrow> pyval" where
  "TripPreferences_dump md p =
     PDict [(''traveler_count'', PInt (traveler_count p)),
            (''budget_usd'', dump_optional PFloat (budget_usd p)),
            (''interests'', PList (map PStr (interests p))),
            (''accessibility_needs'', PList (map PStr (accessibility_needs p))),
            (''pace'', dump_enum TripPace_members (pace p))]"

definition TripPreferences_validate :: "pyval \<Rightarrow> TripPreferences validated" where
  "TripPreferences_validate x =
     (case x of
        PDict kw \<Rightarrow>
          field (field (field (field (field (Inr TripPreferences)
            (with_default ''traveler_count'' 1 v_int kw))
            (with_default ''budget_usd'' None (v_optional v_float) kw))
            (with_default ''interests'' [] (v_list v_str) kw))
            (with_default ''accessibility_needs'' [] (v_list v_str) kw))
            (with_default ''pace'' MODERATE (v_enum TripPace_members) kw)
      | _ \<Rightarrow> Inl [ErrorDetails [] (invalid_type ''model'')])"

definition Destination_dump :: "dump_mode \<Rightarrow> Destination \<Rightarrow> pyval" where
  "Destination_dump md d =
     PDict [(''name'', PStr (Destination.name d)),
            (''country'', PStr (country d)),
            (''iata_code'', dump_optional PStr (iata_code d)),
            (''coordinates'', dump_optional (dump_float_pair md) (Destination.coordinates d))]"

definition Destination_validate :: "pyval \<Rightarrow> Destination validated" where
  "Destination_validate x =
     (case x of
        PDict kw \<Rightarrow>
          field (field (field (field (Inr Destination)
            (required ''name'' v_str kw))
            (required ''country'' v_str kw))
            (with_default ''iata_code'' None (v_optional v_str) kw))
            (with_default ''coordinates'' None (v_optional v_float_pair) kw)
      | _ \<Rightarrow> Inl [ErrorDetails [] (invalid_type ''model'')])"

definition ActivityNote_dump :: "dump_mode \<Rightarrow> ActivityNote \<Rightarrow> pyval" where
  "ActivityNote_dump md n =
     PDict [(''author'', dump_enum NoteAuthor_members (author n)),
            (''content'', PStr (ActivityNote.content n)),
            (''links'', PList (map PStr (links n))),
            (''tags'', PList (map PStr (tags n)))]"

definition ActivityNote_validate :: "pyval \<Rightarrow> ActivityNote validated" where
  "ActivityNote_validate x =
     (case x of
        PDict kw \<Rightarrow>
          field (field (field (field (Inr ActivityNote)
            (required ''author'' (v_enum NoteAuthor_members) kw))
            (required ''content'' v_str kw))
            (with_default ''links'' [] (v_list v_str) kw))
            (with_default ''tags'' [] (v_list v_str) kw)
      | _ \<Rightarrow> Inl [ErrorDetails [] (invalid_type ''model'')])"

definition Activity_dump :: "dump_mode \<Rightarrow> Activity \<Rightarrow> pyval" where
  "Activity_dump md a =
     PDict [(''title'', PStr (title a)),
            (''description'', PStr (Activity.description a)),
            (''duration_hours'', PFloat (Activity.duration_hours a)),
            (''category'', dump_enum ActivityCategory_members (category a)),
            (''start_time'', dump_optional PStr (start_time a)),
            (''end_time'', dump_optional PStr (end_time a)),
            (''estimated_cost_usd'', dump_optional PFloat (Activity.estimated_cost_usd a)),
            (''location'', dump_optional PStr (Activity.location a)),
            (''coordinates'', dump_optional (dump_float_pair md) (Activity.coordinates a)),
            (''notes'', PList (map (ActivityNote_dump md) (Activity.notes' a)))]"

definition Activity_validate :: "pyval \<Rightarrow> Activity validated" where
  "Activity_validate x =
     (case x of
        PDict kw \<Rightarrow>
          field (field (field (field (field (field (field (field (field (field (Inr Activity)
            (required ''title'' v_str kw))
            (required ''description'' v_str kw))
            (required ''duration_hours'' v_float kw))
            (required ''category'' (v_enum ActivityCategory_members) kw))
            (with_default ''start_time'' None (v_optional v_str) kw))
            (with_default ''end_time'' None (v_optional v_str) kw))
            (with_default ''estimated_cost_usd'' None (v_optional v_float) kw))
            (with_default ''location'' None (v_optional v_str) kw))
            (with_default ''coordinates'' None (v_optional v_float_pair) kw))
            (with_default ''notes'' [] (v_list ActivityNote_validate) kw)
      | _ \<Rightarrow> Inl [ErrorDetails [] (invalid_type ''model'')])"

definition TravelSegment_dump :: "dump_mode \<Rightarrow> TravelSegment \<Rightarrow> pyval" where
  "TravelSegment_dump md s =
     PDict [(''mode'', dump_enum TransitMode_members (mode s)),
            (''duration_minutes'', PInt (duration_minutes s)),
            (''description'', PStr (TravelSegment.description s)),
            (''estimated_cost_usd'', dump_optional PFloat (TravelSegment.estimated_cost_usd s))]"

definition TravelSegment_validate :: "pyval \<Rightarrow> TravelSegment validated" where
  "TravelSegment_validate x =
     (case x of
        PDict kw \<Rightarrow>
          field (field (field (field (Inr TravelSegment)
            (required ''mode'' (v_enum TransitMode_members) kw))
            (required ''duration_minutes'' v_int kw))
            (required ''description'' v_str kw))
            (with_default ''estimated_cost_usd'' None (v_optional v_float) kw)
      | _ \<Rightarrow> Inl [ErrorDetails [] (invalid_type ''model'')])"

definition ItineraryDay_dump :: "dump_mode \<Rightarrow> ItineraryDay \<Rightarrow> pyval" where
  "ItineraryDay_dump md d =
     PDict [(''date'', dump_date md (ItineraryDay.date d)),
            (''activities'', PList (map (Activity_dump md) (activities d))),
            (''travel_segments'', PList (map (TravelSegment_dump md) (travel_segments d))),
            (''notes'', PStr (ItineraryDay.notes' d)),
            (''source'', dump_enum DaySource_members (source d))]"

definition ItineraryDay_validate :: "pyval \<Rightarrow> ItineraryDay validated" where
  "ItineraryDay_validate x =
     (case x of
        PDict kw \<Rightarrow>
          field (field (field (field (field (Inr ItineraryDay)
            (required ''date'' v_date kw))
            (with_default ''activities'' [] (v_list Activity_validate) kw))
            (with_default ''travel_segments'' [] (v_list TravelSegment_validate) kw))
            (with_default ''notes'' [] v_str kw))
            (with_default ''source'' GENERATED (v_enum DaySource_members) kw)
      | _ \<Rightarrow> Inl [ErrorDetails [] (invalid_type ''model'')])"

definition Flight_dump :: "dump_mode \<Rightarrow> Flight \<Rightarrow> pyval" where
  "Flight_dump md f =
     PDict [(''airline'', PStr (airline f)),
            (''flight_number'', PStr (flight_number f)),
            (''departure_airport'', PStr (departure_airport f)),
            (''arrival_airport'', PStr (arrival_airport f)),
            (''departure_time'', dump_datetime md (departure_time f)),
            (''arrival_time'', dump_datetime md (arrival_time f)),
            (''duration_hours'', PFloat (Flight.duration_hours f)),
            (''cabin_class'', PStr (cabin_class f)),
            (''estimated_cost_usd'', dump_optional PFloat (Flight.estimated_cost_usd f))]"

definition Flight_validate :: "pyval \<Rightarrow> Flight validated" where
  "Flight_validate x =
     (case x of
        PDict kw \<Rightarrow>
          field (field (field (field (field (field (field (field (field (Inr Flight)
            (required ''airline'' v_str kw))
            (required ''flight_number'' v_str kw))
            (required ''departure_airport'' v_str kw))
            (required ''arrival_airport'' v_str kw))
            (required ''departure_time'' v_datetime kw))
            (required ''arrival_time'' v_datetime kw))
            (required ''duration_hours'' v_float kw))
            (with_default ''cabin_class'' ''economy'' v_str kw))
            (with_default ''estimated_cost_usd'' None (v_optional v_float) kw)
      | _ \<Rightarrow> Inl [ErrorDetails [] (invalid_type ''model'')])"

definition Accommodation_dump :: "dump_mode \<Rightarrow> Accommodation \<Rightarrow> pyval" where
  "Accommodation_dump md a =
     PDict [(''name'', PStr (Accommodation.name a)),
            (''star_rating'', dump_optional PFloat (star_rating a)),
            (''nightly_rate_usd'', dump_optional PFloat (nightly_rate_usd a)),
            (''total_cost_usd'', dump_optional PFloat (total_cost_usd a)),
            (''check_in'', dump_date md (check_in a)),
            (''check_out'', dump_date md (check_out a)),
            (''description'', PStr (Accommodation.description a)),
            (''location'', dump_optional PStr (Accommodation.location a)),
            (''coordinates'', dump_optional (dump_float_pair md) (Accommodation.coordinates a))]"

definition Accommodation_validate :: "pyval \<Rightarrow> Accommodation validated" where
  "Accommodation_validate x =
     (case x of
        PDict kw \<Rightarrow>
          field (field (field (field (field (field (field (field (field (Inr Accommodation)
            (required ''name'' v_str kw))
            (with_default ''star_rating'' None (v_optional v_float) kw))
            (with_default ''nightly_rate_usd'' None (v_optional v_float) kw))
            (with_default ''total_cost_usd'' None (v_optional v_float) kw))
            (required ''check_in'' v_date kw))
            (required ''check_out'' v_date kw))
            (with_default ''description'' [] v_str kw))
            (with_default ''location'' None (v_optional v_str) kw))
            (with_default ''coordinates'' None (v_optional v_float_pair) kw)
      | _ \<Rightarrow> Inl [ErrorDetails [] (invalid_type ''model'')])"

subsection \<open>\<open>Itinerary\<close> and its field validator\<close>

text \<open>
  \<open>end_after_start\<close> runs on a type-checked \<open>end_date\<close>, with \<open>info.data\<close>: the fields
  before \<open>end_date\<close> that passed validation. The validator reads the key \<open>start_date\<close>
  only, so \<open>info_data\<close> lists the date-valued entries. \<open>Inl\<close> is the message of the
  \<open>ValueError\<close> raised.
\<close>

definition end_after_start :: "date \<Rightarrow> (string \<times> date) list \<Rightarrow> string + date" where
  "end_after_start v info_data =
     (case map_of info_data ''start_date'' of
        Some start \<Rightarrow>
          if date_le v start then Inl ''end_date must be after start_date'' else Inr v
      | None \<Rightarrow> Inr v)"

text \<open>
  A field validator runs after the type check of its field succeeded; the \<open>ValueError\<close>
  it raises becomes an error line located at the field.
\<close>

definition field_validator :: "string \<Rightarrow> ('a \<Rightarrow> string + 'a) \<Rightarrow> 'a validated \<Rightarrow> 'a validated" where
  "field_validator key f r =
     (case r of
        Inl es \<Rightarrow> Inl es
      | Inr v \<Rightarrow>
          (case f v of
             Inl msg \<Rightarrow> Inl [ErrorDetails [Key key] (value_error msg)]
           | Inr v' \<Rightarrow> Inr v'))"

definition default_TripPreferences :: TripPreferences where
  "default_TripPreferences = TripPreferences 1 None [] [] MODERATE"

definition Itinerary_dump :: "dump_mode \<Rightarrow> Itinerary \<Rightarrow> pyval" where
  "Itinerary_dump md i =
     PDict [(''destination'', Destination_dump md (destination i)),
            (''start_date'', dump_date md (start_date i)),
            (''end_date'', dump_date md (end_date i)),
            (''preferences'', TripPreferences_dump md (preferences i)),
            (''days'', PList (map (ItineraryDay_dump md) (days i))),
            (''flights'', PList (map (Flight_dump md) (flights i))),
            (''accommodations'', PList (map (Accommodation_dump md) (accommodations i))),
            (''created_at'', dump_datetime md (created_at i))]"

definition Itinerary_validate :: "datetime \<Rightarrow> pyval \<Rightarrow> Itinerary validated" where
  "Itinerary_validate now x =
     (case x of
        PDict kw \<Rightarrow>
          (let destination' = required ''destination'' Destination_validate kw;
               start_date' = required ''start_date'' v_date kw;
               info_data = (case start_date' of Inr s \<Rightarrow> [(''start_date'', s)] | Inl es \<Rightarrow> []);
               end_date' = field_validator ''end_date'' (\<lambda>v. end_after_start v info_data)
                             (required ''end_date'' v_date kw)
           in field (field (field (field (field (field (field (field (Inr Itinerary)
                destination')
                start_date')
                end_date')
                (with_default ''preferences'' default_TripPreferences TripPreferences_validate kw))
                (with_default ''days'' [] (v_list ItineraryDay_validate) kw))
                (with_default ''flights'' [] (v_list Flight_validate) kw))
                (with_default ''accommodations'' [] (v_list Accommodation_validate) kw))
                (with_default ''created_at'' now v_datetime kw))
      | _ \<Rightarrow> Inl [ErrorDetails [] (invalid_type ''model'')])"

definition ChatMessage_dump :: "dump_mode \<Rightarrow> ChatMessage \<Rightarrow> pyval" where
  "ChatMessage_dump md m =
     PDict [(''role'', PStr (role m)),
            (''content'', PStr (ChatMessage.content m)),
            (''timestamp'', dump_datetime md (timestamp m))]"

definition ChatMessage_validate :: "datetime \<Rightarrow> pyval \<Rightarrow> ChatMessage validated" where
  "ChatMessage_validate now x =
     (case x of
        PDict kw \<Rightarrow>
          field (field (field (Inr ChatMessage)
            (required ''role'' v_str kw))
            (required ''content'' v_str kw))
            (with_default ''timestamp'' now v_datetime kw)
      | _ \<Rightarrow> Inl [ErrorDetails [] (invalid_type ''model'')])"

definition UserProfile_dump :: "dump_mode \<Rightarrow> UserProfile \<Rightarrow> pyval" where
  "UserProfile_dump md u =
     PDict [(''favourite_destination_types'', PList (map PStr (favourite_destination_types u))),
            (''favourite_categories'', PList (map PStr (favourite_categories u))),
            (''preferred_pace'', dump_enum TripPace_members (preferred_pace u)),
            (''typical_budget_usd'', dump_optional PFloat (typical_budget_usd u)),
            (''past_destinations'', PList (map PStr (past_destinations u))),
            (''trip_count'', PInt (trip_count u)),
            (''updated_at'', dump_datetime md (updated_at u))]"

definition UserProfile_validate :: "datetime \<Rightarrow> pyval \<Rightarrow> UserProfile validated" where
  "UserProfile_validate now x =
     (case x of
        PDict kw \<Rightarrow>
          field (field (field (field (field (field (field (Inr UserProfile)
            (with_default ''favourite_destination_types'' [] (v_list v_str) kw))
            (with_default ''favourite_categories'' [] (v_list v_str) kw))
            (with_default ''preferred_pace'' MODERATE (v_enum TripPace_members) kw))
            (with_default ''typical_budget_usd'' None (v_optional v_float) kw))
            (with_default ''past_destinations'' [] (v_list v_str) kw))
            (with_default ''trip_count'' 0 v_int kw))
            (with_default ''updated_at'' now v_datetime kw)
      | _ \<Rightarrow> Inl [ErrorDetails [] (invalid_type ''model'')])"

subsection \<open>Well-formed instances\<close>

text \<open>
  A \<open>date\<close> or \<open>datetime\<close> object of Python always holds a date of the calendar and a
  time of day; the datatypes above also have other values. An instance is well formed
  when its dates and datetimes are such objects and, for an \<open>Itinerary\<close>, when it
  satisfies the invariant of the class, \<open>end_date\<close> after \<open>start_date\<close>.
\<close>

definition ItineraryDay_valid :: "ItineraryDay \<Rightarrow> bool" where
  "ItineraryDay_valid d = valid_date (ItineraryDay.date d)"

definition Flight_valid :: "Flight \<Rightarrow> bool" where
  "Flight_valid f = (valid_datetime (departure_time f) \<and> valid_datetime (arrival_time f))"

definition Accommodation_valid :: "Accommodation \<Rightarrow> bool" where
  "Accommodation_valid a = (valid_date (check_in a) \<and> valid_date (check_out a))"

definition Itinerary_valid :: "Itinerary \<Rightarrow> bool" where
  "Itinerary_valid i =
     (valid_date (start_date i) \<and> valid_date (end_date i)
      \<and> date_lt (start_date i) (end_date i)
      \<and> list_all ItineraryDay_valid (days i)
      \<and> list_all Flight_valid (flights i)
      \<and> list_all Accommodation_valid (accommodations i)
      \<and> valid_datetime (created_at i))"

definition ChatMessage_valid :: "ChatMessage \<Rightarrow> bool" where
  "ChatMessage_valid m = valid_datetime (timestamp m)"

definition UserProfile_valid :: "UserProfile \<Rightarrow> bool" where
  "UserProfile_valid u = valid_datetime (updated_at u)"

subsection \<open>Field assignment\<close>

text \<open>
  \<open>model_config\<close>: the option the classes set is \<open>frozen\<close>; a class without a
  \<open>model_config\<close> has the default, which is not frozen.
\<close>

record ConfigDict =
  frozen :: bool

definition default_model_config :: ConfigDict where
  "default_model_config = \<lparr>frozen = False\<rparr>"

definition TripPreferences_model_config :: ConfigDict where
  "TripPreferences_model_config = default_model_config"

definition Destination_model_config :: ConfigDict where
  "Destination_model_config = default_model_config"

definition ActivityNote_model_config :: ConfigDict where
  "ActivityNote_model_config = \<lparr>frozen = True\<rparr>"

definition Activity_model_config :: ConfigDict where
  "Activity_model_config = \<lparr>frozen = True\<rparr>"

definition TravelSegment_model_config :: ConfigDict where
  "TravelSegment_model_config = \<lparr>frozen = True\<rparr>"

definition ItineraryDay_model_config :: ConfigDict where
  "ItineraryDay_model_config = \<lparr>frozen = True\<rparr>"

definition Flight_model_config :: ConfigDict where
  "Flight_model_config = \<lparr>frozen = True\<rparr>"

definition Accommodation_model_config :: ConfigDict where
  "Accommodation_model_config = \<lparr>frozen = True\<rparr>"

definition Itinerary_model_config :: ConfigDict where
  "Itinerary_model_config = default_model_config"

definition ChatMessage_model_config :: ConfigDict where
  "ChatMessage_model_config = default_model_config"

definition UserProfile_model_config :: ConfigDict where
  "UserProfile_model_config = default_model_config"

text \<open>
  \<open>obj.field = value\<close> on a model instance: \<open>assign\<close> is the instance with the field
  replaced by a value of the field's type. A frozen class rejects the assignment with a
  \<open>frozen_instance\<close> error and the instance stays as it was; otherwise the field is set,
  without validation. The result is the error raised, if any, and the instance after
  the statement.
\<close>

definition model_setattr :: "ConfigDict \<Rightarrow> ('m \<Rightarrow> 'm) \<Rightarrow> 'm \<Rightarrow> error_type option \<times> 'm" where
  "model_setattr model_config assign obj =
     (if frozen model_config then (Some frozen_instance, obj) else (None, assign obj))"

definition TripPreferences_setattr ::
    "(TripPreferences \<Rightarrow> TripPreferences) \<Rightarrow> TripPreferences \<Rightarrow> error_type option \<times> TripPreferences" where
  "TripPreferences_setattr = model_setattr TripPreferences_model_config"

definition Destination_setattr ::
    "(Destination \<Rightarrow> Destination) \<Rightarrow> Destination \<Rightarrow> error_type option \<times> Destination" where
  "Destination_setattr = model_setattr Destination_model_config"

definition ActivityNote_setattr ::
    "(ActivityNote \<Rightarrow> ActivityNote) \<Rightarrow> ActivityNote \<Rightarrow> error_type option \<times> ActivityNote" where
  "ActivityNote_setattr = model_setattr ActivityNote_model_config"

definition Activity_setattr ::
    "(Activity \<Rightarrow> Activity) \<Rightarrow> Activity \<Rightarrow> error_type option \<times> Activity" where
  "Activity_setattr = model_setattr Activity_model_config"

definition TravelSegment_setattr ::
    "(TravelSegment \<Rightarrow> TravelSegment) \<Rightarrow> TravelSegment \<Rightarrow> error_type option \<times> TravelSegment" where
  "TravelSegment_setattr = model_setattr TravelSegment_model_config"

definition ItineraryDay_setattr ::
    "(ItineraryDay \<Rightarrow> ItineraryDay) \<Rightarrow> ItineraryDay \<Rightarrow> error_type option \<times> ItineraryDay" where
  "ItineraryDay_setattr = model_setattr ItineraryDay_model_config"

definition Flight_setattr ::
    "(Flight \<Rightarrow> Flight) \<Rightarrow> Flight \<Rightarrow> error_type option \<times> Flight" where
  "Flight_setattr = model_setattr Flight_model_config"

definition Accommodation_setattr ::
    "(Accommodation \<Rightarrow> Accommodation) \<Rightarrow> Accommodation \<Rightarrow> error_type option \<times> Accommodation" where
  "Accommodation_setattr = model_setattr Accommodation_model_config"

definition Itinerary_setattr ::
    "(Itinerary \<Rightarrow> Itinerary) \<Rightarrow> Itinerary \<Rightarrow> error_type option \<times> Itinerary" where
  "Itinerary_setattr = model_setattr Itinerary_model_config"

subsection \<open>Sample objects of the test suite\<close>

definition sample_destination :: Destination where
  "sample_destination = Destination ''Kyoto'' ''Japan'' (Some ''KIX'') (Some (35.0116, 135.7681))"

definition sample_preferences :: TripPreferences where
  "sample_preferences =
     TripPreferences 2 (Some 3000) [''temples'', ''food'', ''cherry blossom''] [] MODERATE"

definition sample_activity :: Activity where
  "sample_activity =
     Activity ''Fushimi Inari Shrine'' ''Walk the thousand torii gates.'' 2.5 SIGHTSEEING
       (Some ''08:00'') (Some ''10:30'') (Some 0) (Some ''Fushimi Ward'') None []"

definition sample_created_at :: datetime where
  "sample_created_at = DateTime (Date 2025 3 1) 12 0 0 0 (Some 0)"

definition sample_itinerary :: Itinerary where
  "sample_itinerary =
     Itinerary sample_destination (Date 2025 4 1) (Date 2025 4 6) sample_preferences
       [ItineraryDay (Date 2025 4 1) [sample_activity] [] [] GENERATED] [] [] sample_created_at"

text \<open>A flight, a lodging, a chat message and a profile to go with them.\<close>

definition sample_flight :: Flight where
  "sample_flight =
     Flight ''Japan Airlines'' ''JL 43'' ''LHR'' ''HND''
       (DateTime (Date 2025 3 31) 9 25 0 0 (Some 60))
       (DateTime (Date 2025 4 1) 7 10 30 250000 (Some 540))
       13.75 ''economy'' (Some 980)"

definition sample_accommodation :: Accommodation where
  "sample_accommodation =
     Accommodation ''Ryokan Sanga'' (Some 4.5) (Some 210) (Some 1050)
       (Date 2025 4 1) (Date 2025 4 6) ''Traditional inn near Gion.'' (Some ''Higashiyama'') None"

definition sample_chat_message :: ChatMessage where
  "sample_chat_message =
     ChatMessage ''user'' ''Plan 5 days in Kyoto'' (DateTime (Date 2024 2 29) 23 59 59 0 None)"

definition sample_profile :: UserProfile where
  "sample_profile =
     UserProfile [''city''] [''culture''] RELAXED None [''Kyoto''] 1
       (DateTime (Date 2025 4 7) 8 0 0 0 (Some (- 300)))"

text \<open>
  An itinerary with every nested collection filled: a day with an annotated activity and a
  travel segment, a flight and a lodging.
\<close>

definition full_itinerary :: Itinerary where
  "full_itinerary =
     Itinerary sample_destination (Date 2025 4 1) (Date 2025 4 6) sample_preferences
       [ItineraryDay (Date 2025 4 1)
          [Activity ''Nishiki Market'' ''Street food tasting.'' 1.5 FOOD None None (Some 25) None
             (Some (35.005, 135.7648))
             [ActivityNote AGENT ''Closed on Wednesdays'' [''https://example.com/nishiki'']
                [''tip'']],
           sample_activity]
          [TravelSegment TRAIN 12 ''Keihan line to Fushimi'' (Some 2.1)]
          ''Arrival day'' REFINED]
       [sample_flight] [sample_accommodation] sample_created_at"

section \<open>Properties of the tools\<close>

subsection \<open>Title case\<close>

lemma toupper_upper_case: "\<forall>c::char. toupper c = upper_case c"
  by code_simp

lemma tolower_lower_case: "\<forall>c::char. tolower c = lower_case c"
  by code_simp

lemma iscased_is_letter: "\<forall>c::char. iscased c = is_letter c"
  by code_simp

lemma str_title_from_positions:
  "str_title_from p s =
     map (\<lambda>i. if (if i = 0 then p else is_letter (s ! (i - 1)))
               then lower_case (s ! i) else upper_case (s ! i))
       [0..<length s]"
proof (induction s arbitrary: p)
  case Nil
  then show ?case by simp
next
  case (Cons c cs)
  have split: "[0..<length (c # cs)] = 0 # map Suc [0..<length cs]"
    by (simp add: upt_conv_Cons map_Suc_upt del: upt_Suc)
  have casing: "tolower c = lower_case c" "toupper c = upper_case c" "iscased c = is_letter c"
    using tolower_lower_case toupper_upper_case iscased_is_letter by blast+
  show ?case
    unfolding split
    by (simp add: Cons.IH casing nth_Cons' cong: if_cong)
qed

lemma str_title_title_cased: "str_title s = title_cased s"
  unfolding str_title_def title_cased_def str_title_from_positions
  by (rule map_cong) auto

subsection \<open>Claims about the tools\<close>

text \<open>
  C9. For every query and every integer \<open>max_results\<close>, also below 1, the placeholder
  destination search returns a list of exactly one record with the keys name, country,
  description and coordinates; its name is \<open>query.title()\<close>, which for a query of ASCII
  characters is the query in title case (every letter that starts a word in upper case,
  every other letter in lower case, the rest unchanged) and for any other query is what
  \<open>unicode_title\<close> gives; its coordinates are None; and the result does not depend on
  \<open>max_results\<close>.
\<close>

theorem search_destinations_placeholder:
  "length (search_destinations unicode_title query max_results) = 1
   \<and> {''name'', ''country'', ''description'', ''coordinates''}
        \<subseteq> fst ` set (hd (search_destinations unicode_title query max_results))
   \<and> map_of (hd (search_destinations unicode_title query max_results)) ''name''
        = Some (PStr (py_title unicode_title query))
   \<and> (is_ascii query \<longrightarrow>
        map_of (hd (search_destinations unicode_title query max_results)) ''name''
          = Some (PStr (title_cased query)))
   \<and> (\<not> is_ascii query \<longrightarrow>
        map_of (hd (search_destinations unicode_title query max_results)) ''name''
          = Some (PStr (unicode_title query)))
   \<and> map_of (hd (search_destinations unicode_title query max_results)) ''coordinates''
        = Some PNone
   \<and> search_destinations unicode_title query max_results
        = search_destinations unicode_title query max_results'"
  by (simp add: search_destinations_def py_title_def str_title_title_cased)

theorem search_destinations_placeholder_witness:
  "is_ascii ''tEMPLES in kYOTO-city''
   \<and> search_destinations id ''tEMPLES in kYOTO-city'' (- 3) =
       [[(''name'', PStr ''Temples In Kyoto-City''),
         (''country'', PStr ''Unknown''),
         (''description'',
            PStr (''Search results for '' @ [CHR 0x27] @ ''tEMPLES in kYOTO-city'' @ [CHR 0x27]
                  @ '' '' @ em_dash @ '' integration pending.'')),
         (''coordinates'', PNone),
         (''note'',
            PStr (''Destination search integration pending '' @ em_dash
                  @ '' placeholder data.''))]]
   \<and> title_cased ''tEMPLES in kYOTO-city'' = ''Temples In Kyoto-City''
   \<and> search_destinations id ''tEMPLES in kYOTO-city'' (- 3)
       = search_destinations id ''tEMPLES in kYOTO-city'' 5
   \<and> \<not> is_ascii (''caf'' @ [CHR 0xC3, CHR 0xA9] @ ''s in paris'')
   \<and> map_of (hd (search_destinations
         (\<lambda>s. ''Caf'' @ [CHR 0xC3, CHR 0xA9] @ ''s In Paris'')
         (''caf'' @ [CHR 0xC3, CHR 0xA9] @ ''s in paris'') 0)) ''name''
       = Some (PStr (''Caf'' @ [CHR 0xC3, CHR 0xA9] @ ''s In Paris''))"
proof -
  have a: "is_ascii ''tEMPLES in kYOTO-city''"
    by (simp add: is_ascii_def)
  have n: "\<not> is_ascii (''caf'' @ [CHR 0xC3, CHR 0xA9] @ ''s in paris'')"
    by (simp add: is_ascii_def)
  have t: "str_title ''tEMPLES in kYOTO-city'' = ''Temples In Kyoto-City''"
    by (simp add: str_title_def tolower_def toupper_def iscased_def islower_def isupper_def
        lower_letters_def upper_letters_def)
  show ?thesis
    using search_destinations_placeholder [of id "''tEMPLES in kYOTO-city''" "- 3" 5]
      search_destinations_placeholder [of "\<lambda>s. ''Caf'' @ [CHR 0xC3, CHR 0xA9] @ ''s In Paris''"
        "''caf'' @ [CHR 0xC3, CHR 0xA9] @ ''s in paris''" 0 0] a n t
    by (simp add: search_destinations_def py_title_def)
qed

text \<open>
  C4. With an empty weather API key the tool returns a record whose city and date are
  the requested ones and which has an error field; with a configured key, and for every
  outcome of the request (the placeholder record, an HTTP status error, a request
  error), the record returned echoes city and date as well. The tool is a total
  function into records: no branch raises.
\<close>

theorem get_weather_degrades:
  "(atlas_weather_api_key cfg = [] \<longrightarrow>
      map_of (get_weather cfg city date') ''city'' = Some (PStr city)
      \<and> map_of (get_weather cfg city date') ''date'' = Some (PStr date')
      \<and> ''error'' \<in> fst ` set (get_weather cfg city date'))
   \<and> map_of (get_weather cfg city date') ''city'' = Some (PStr city)
   \<and> map_of (get_weather cfg city date') ''date'' = Some (PStr date')
   \<and> map_of (get_weather_try (Inl exc) city date') ''city'' = Some (PStr city)
   \<and> map_of (get_weather_try (Inl exc) city date') ''date'' = Some (PStr date')
   \<and> ''error'' \<in> fst ` set (get_weather_try (Inl exc) city date')
   \<and> map_of (get_weather_try (weather_request city date') city date') ''city'' = Some (PStr city)
   \<and> map_of (get_weather_try (weather_request city date') city date') ''date'' = Some (PStr date')"
  by (cases exc) (simp_all add: get_weather_def get_weather_try_def weather_request_def Let_def)

theorem get_weather_degrades_witness:
  "atlas_weather_api_key
     \<lparr>openrouter_api_key = ''k'', atlas_llm_model = ''openai/gpt-4o'',
      openrouter_base_url = ''https://openrouter.ai/api/v1'', atlas_weather_api_key = [],
      atlas_debug = False, atlas_host = ''127.0.0.1'', atlas_port = 8050\<rparr> = []
   \<and> get_weather
     \<lparr>openrouter_api_key = ''k'', atlas_llm_model = ''openai/gpt-4o'',
      openrouter_base_url = ''https://openrouter.ai/api/v1'', atlas_weather_api_key = [],
      atlas_debug = False, atlas_host = ''127.0.0.1'', atlas_port = 8050\<rparr>
     ''Kyoto'' ''2025-04-01''
     = [(''city'', PStr ''Kyoto''), (''date'', PStr ''2025-04-01''),
        (''error'', PStr (''Weather API key not configured '' @ em_dash
                          @ '' skipping forecast.''))]
   \<and> map_of (get_weather_try (Inl (HTTPStatusError 503)) ''Kyoto'' ''2025-04-01'') ''error''
       = Some (PStr ''Weather API returned 503.'')"
  using get_weather_degrades [of
     "\<lparr>openrouter_api_key = ''k'', atlas_llm_model = ''openai/gpt-4o'',
      openrouter_base_url = ''https://openrouter.ai/api/v1'', atlas_weather_api_key = [],
      atlas_debug = False, atlas_host = ''127.0.0.1'', atlas_port = 8050\<rparr>"
     "''Kyoto''" "''2025-04-01''" "HTTPStatusError 503"]
  by (simp add: get_weather_def get_weather_try_def digit_char_def)

section \<open>Properties of the conversation loop\<close>

lemma END_not_tools: "END \<noteq> ''tools''"
  by (simp add: END_def)

lemma should_continue_tools_iff:
  "should_continue state = Inr ''tools'' \<longleftrightarrow>
     state \<noteq> [] \<and> (\<exists>ai_text tool_calls. last state = AIMessage ai_text tool_calls \<and> tool_calls \<noteq> [])"
  by (auto simp: should_continue_def Let_def END_def split: message.splits)

lemma should_continue_END_iff:
  "should_continue state = Inr END \<longleftrightarrow>
     state \<noteq> [] \<and> \<not> (\<exists>ai_text tool_calls. last state = AIMessage ai_text tool_calls \<and> tool_calls \<noteq> [])"
  by (auto simp: should_continue_def Let_def END_def split: message.splits)



lemma conditional_edge_END:
  "should_continue state = Inr END \<Longrightarrow>
   conditional_edge llm ex n (state, calls) = Some (Inr (state, calls))"
  by (simp add: END_not_tools)






text \<open>
  C10. When the last message of a non-empty state is not an assistant message,
  \<open>should_continue\<close> answers END and the graph returns the state as it is.
  \<open>should_continue\<close> answers \<open>tools\<close> exactly when the last message is an assistant
  message with a non-empty list of tool calls, and every step of the graph that moves to
  the tools node arrives there with such a last message.
\<close>

theorem tools_only_after_tool_calls:
  "(state \<noteq> [] \<and> (\<forall>ai_text tool_calls. last state \<noteq> AIMessage ai_text tool_calls) \<longrightarrow>
      should_continue state = Inr END
      \<and> conditional_edge llm ex n (state, calls) = Some (Inr (state, calls)))
   \<and> (should_continue state = Inr ''tools'' \<longleftrightarrow>
        state \<noteq> []
        \<and> (\<exists>ai_text tool_calls. last state = AIMessage ai_text tool_calls \<and> tool_calls \<noteq> []))
   \<and> (graph_step model tool c (at_node tools, state') \<longrightarrow>
        state' \<noteq> []
        \<and> (\<exists>ai_text tool_calls. last state' = AIMessage ai_text tool_calls \<and> tool_calls \<noteq> []))"
proof (intro conjI impI)
  assume a: "state \<noteq> [] \<and> (\<forall>ai_text tool_calls. last state \<noteq> AIMessage ai_text tool_calls)"
  then show e: "should_continue state = Inr END"
    by (simp add: should_continue_END_iff)
  then show "conditional_edge llm ex n (state, calls) = Some (Inr (state, calls))"
    by (rule conditional_edge_END)
next
  show "should_continue state = Inr ''tools'' \<longleftrightarrow>
        state \<noteq> []
        \<and> (\<exists>ai_text tool_calls. last state = AIMessage ai_text tool_calls \<and> tool_calls \<noteq> [])"
    by (rule should_continue_tools_iff)
next
  assume "graph_step model tool c (at_node tools, state')"
  then have "should_continue state' = Inr ''tools''"
    by (cases rule: graph_step.cases) auto
  then have "state' \<noteq> []
        \<and> (\<exists>ai_text tool_calls. last state' = AIMessage ai_text tool_calls \<and> tool_calls \<noteq> [])"
    by (simp add: should_continue_tools_iff)
  then show "state' \<noteq> []"
    and "\<exists>ai_text tool_calls. last state' = AIMessage ai_text tool_calls \<and> tool_calls \<noteq> []"
    by simp_all
qed

theorem tools_only_after_tool_calls_witness:
  "[HumanMessage ''Hello'',
    ToolMessage (PDict (get_weather test_settings ''Kyoto'' ''2025-04-01'')) ''get_weather''
      ''call_1''] \<noteq> []
   \<and> should_continue
       [HumanMessage ''Hello'',
        ToolMessage (PDict (get_weather test_settings ''Kyoto'' ''2025-04-01'')) ''get_weather''
          ''call_1''] = Inr END
   \<and> should_continue [HumanMessage ''Hello''] = Inr END
   \<and> conditional_edge kyoto_llm (weather_only test_settings) 0 ([HumanMessage ''Hello''], [])
       = Some (Inr ([HumanMessage ''Hello''], []))
   \<and> graph_step (\<lambda>state response. response = kyoto_llm state)
        (\<lambda>call v. v = weather_only test_settings call)
        (at_node agent, [HumanMessage ''Hello''])
        (at_node tools, [HumanMessage ''Hello'', AIMessage [] [kyoto_call]])
   \<and> last [HumanMessage ''Hello'', AIMessage [] [kyoto_call]] = AIMessage [] [kyoto_call]"
proof -
  have "graph_step (\<lambda>state response. response = kyoto_llm state)
        (\<lambda>call v. v = weather_only test_settings call)
        (at_node agent, [HumanMessage ''Hello''])
        (at_node tools, [HumanMessage ''Hello''] @ [AIMessage [] [kyoto_call]])"
    by (rule agent_to_tools) (simp_all add: kyoto_llm_def should_continue_def)
  then have g': "graph_step (\<lambda>state response. response = kyoto_llm state)
        (\<lambda>call v. v = weather_only test_settings call)
        (at_node agent, [HumanMessage ''Hello''])
        (at_node tools, [HumanMessage ''Hello'', AIMessage [] [kyoto_call]])"
    by simp
  show ?thesis
    using tools_only_after_tool_calls [of "[HumanMessage ''Hello'']" kyoto_llm
        "weather_only test_settings" 0 "[]" "\<lambda>state response. response = kyoto_llm state"
        "\<lambda>call v. v = weather_only test_settings call" "(at_node agent, [HumanMessage ''Hello''])"
        "[HumanMessage ''Hello'', AIMessage [] [kyoto_call]]"]
      tools_only_after_tool_calls [of "[HumanMessage ''Hello'',
        ToolMessage (PDict (get_weather test_settings ''Kyoto'' ''2025-04-01'')) ''get_weather''
          ''call_1'']"]
      g'
    by (simp add: END_def should_continue_def)
qed

subsection \<open>The reducer when identifiers do not collide\<close>

lemma given_ids_Cons:
  "given_ids (m # ms) = (case message_id m of None \<Rightarrow> given_ids ms | Some i \<Rightarrow> i # given_ids ms)"
  by (simp add: given_ids_def split: option.splits)

lemma given_ids_Nil [simp]: "given_ids [] = []"
  by (simp add: given_ids_def)

lemma assign_ids_props:
  assumes "inj uuids" "distinct (given_ids ms)" "\<forall>j. uuids j \<notin> set (given_ids ms)"
  shows "map payload (fst (assign_ids uuids k ms)) = map payload ms
    \<and> k \<le> snd (assign_ids uuids k ms)
    \<and> (\<forall>m \<in> set (fst (assign_ids uuids k ms)). message_id m \<noteq> None)
    \<and> set (map message_id (fst (assign_ids uuids k ms)))
        \<subseteq> Some ` (set (given_ids ms) \<union> uuids ` {k..<snd (assign_ids uuids k ms)})
    \<and> distinct (map message_id (fst (assign_ids uuids k ms)))"
  using assms(2,3)
proof (induction ms arbitrary: k)
  case Nil
  then show ?case by simp
next
  case (Cons m ms)
  show ?case
  proof (cases "message_id m")
    case None
    from Cons.prems None have p: "distinct (given_ids ms)" "\<forall>j. uuids j \<notin> set (given_ids ms)"
      by (simp_all add: given_ids_Cons)
    note ih = Cons.IH [OF p, of "Suc k"]
    obtain ms' k' where a: "assign_ids uuids (Suc k) ms = (ms', k')" by force
    from ih a have ih': "map payload ms' = map payload ms" "Suc k \<le> k'"
      "\<forall>m \<in> set ms'. message_id m \<noteq> None"
      "set (map message_id ms') \<subseteq> Some ` (set (given_ids ms) \<union> uuids ` {Suc k..<k'})"
      "distinct (map message_id ms')"
      by simp_all
    have fresh: "Some (uuids k) \<notin> set (map message_id ms')"
    proof
      assume "Some (uuids k) \<in> set (map message_id ms')"
      with ih'(4) have "uuids k \<in> set (given_ids ms) \<union> uuids ` {Suc k..<k'}" by auto
      with p(2) obtain j where "j \<in> {Suc k..<k'}" "uuids k = uuids j" by auto
      with assms(1) show False by (auto dest: injD)
    qed
    have sub: "Some ` (set (given_ids ms) \<union> uuids ` {Suc k..<k'})
        \<subseteq> Some ` (set (given_ids ms) \<union> uuids ` {k..<k'})"
      by auto
    have here: "Some (uuids k) \<in> Some ` (set (given_ids ms) \<union> uuids ` {k..<k'})"
      using ih'(2) by auto
    from None a ih' fresh sub here show ?thesis
      by (auto simp: given_ids_Cons)
  next
    case (Some i)
    from Cons.prems Some have p: "distinct (given_ids ms)" "\<forall>j. uuids j \<notin> set (given_ids ms)"
      and i: "i \<notin> set (given_ids ms)" "\<forall>j. uuids j \<noteq> i"
      by (auto simp: given_ids_Cons)
    note ih = Cons.IH [OF p, of k]
    obtain ms' k' where a: "assign_ids uuids k ms = (ms', k')" by force
    from ih a have ih': "map payload ms' = map payload ms" "k \<le> k'"
      "\<forall>m \<in> set ms'. message_id m \<noteq> None"
      "set (map message_id ms') \<subseteq> Some ` (set (given_ids ms) \<union> uuids ` {k..<k'})"
      "distinct (map message_id ms')"
      by simp_all
    have fresh: "Some i \<notin> set (map message_id ms')"
    proof
      assume "Some i \<in> set (map message_id ms')"
      with ih'(4) have "i \<in> set (given_ids ms) \<union> uuids ` {k..<k'}" by auto
      with i show False by auto
    qed
    from Some a ih' fresh show ?thesis
      by (auto simp: given_ids_Cons)
  qed
qed

lemma assign_ids_settled:
  assumes "\<forall>m \<in> set ms. message_id m \<noteq> None"
  shows "assign_ids uuids k ms = (ms, k)"
  using assms by (induction ms) auto

lemma index_by_id_fresh:
  assumes "mid \<notin> set (map message_id merged)"
  shows "index_by_id merged mid = None"
proof -
  have "filter (\<lambda>i. message_id (merged ! i) = mid) [0..<length merged] = []"
    using assms by (auto simp: filter_empty_conv)
  then show ?thesis by (simp add: index_by_id_def)
qed

lemma merge_message_fresh:
  "message_id m \<notin> set (map message_id merged) \<Longrightarrow> merge_message merged m = merged @ [m]"
  by (simp add: merge_message_def index_by_id_fresh)

lemma foldl_merge_fresh:
  assumes "distinct (map message_id right)"
    and "set (map message_id right) \<inter> set (map message_id left) = {}"
  shows "foldl merge_message left right = left @ right"
  using assms
proof (induction right arbitrary: left)
  case Nil
  then show ?case by simp
next
  case (Cons m right)
  from Cons.prems have f: "message_id m \<notin> set (map message_id left)" by auto
  from Cons.prems have "distinct (map message_id right)"
    and "set (map message_id right) \<inter> set (map message_id (left @ [m])) = {}"
    by auto
  from Cons.IH [OF this] f show ?case
    by (simp add: merge_message_fresh)
qed

lemma add_messages_fresh:
  assumes "inj uuids" "settled uuids k left"
    and "distinct (given_ids right)" "\<forall>j. uuids j \<notin> set (given_ids right)"
    and "set (given_ids right) \<inter> {i. Some i \<in> set (map message_id left)} = {}"
  shows "\<exists>right' k'. add_messages uuids k left right = (left @ right', k')
     \<and> map payload right' = map payload right \<and> settled uuids k' (left @ right')"
proof -
  obtain right' k' where a: "assign_ids uuids k right = (right', k')" by force
  from assign_ids_props [OF assms(1,3,4), of k] a have p:
    "map payload right' = map payload right" "k \<le> k'"
    "\<forall>m \<in> set right'. message_id m \<noteq> None"
    "set (map message_id right') \<subseteq> Some ` (set (given_ids right) \<union> uuids ` {k..<k'})"
    "distinct (map message_id right')"
    by simp_all
  from assms(2) have l: "\<forall>m \<in> set left. message_id m \<noteq> None" "distinct (map message_id left)"
    "\<forall>m \<in> set left. \<forall>j \<ge> k. message_id m \<noteq> Some (uuids j)"
    by (simp_all add: settled_def)
  have disj: "set (map message_id right') \<inter> set (map message_id left) = {}"
  proof (rule ccontr)
    assume "set (map message_id right') \<inter> set (map message_id left) \<noteq> {}"
    then obtain x where x: "x \<in> set (map message_id right')" "x \<in> set (map message_id left)"
      by auto
    from x(1) p(4) obtain i where i: "x = Some i" "i \<in> set (given_ids right) \<union> uuids ` {k..<k'}"
      by auto
    from i(2) show False
    proof
      assume "i \<in> set (given_ids right)"
      with x(2) i(1) assms(5) show False by auto
    next
      assume "i \<in> uuids ` {k..<k'}"
      then obtain j where j: "k \<le> j" "i = uuids j" by auto
      from x(2) obtain m where m: "m \<in> set left" "message_id m = x" by auto
      from l(3) m(1) j(1) have "message_id m \<noteq> Some (uuids j)" by blast
      with m(2) i(1) j(2) show False by simp
    qed
  qed
  have merged: "foldl merge_message left right' = left @ right'"
    by (rule foldl_merge_fresh [OF p(5) disj])
  have later: "\<forall>m \<in> set right'. \<forall>j \<ge> k'. message_id m \<noteq> Some (uuids j)"
  proof (intro ballI allI impI)
    fix m j assume m: "m \<in> set right'" and j: "k' \<le> j"
    show "message_id m \<noteq> Some (uuids j)"
    proof
      assume e: "message_id m = Some (uuids j)"
      with m have "Some (uuids j) \<in> set (map message_id right')" by force
      with p(4) have "uuids j \<in> set (given_ids right) \<union> uuids ` {k..<k'}" by auto
      with assms(4) obtain j' where "j' < k'" "uuids j = uuids j'" by auto
      with assms(1) j show False by (auto dest: injD)
    qed
  qed
  have s: "settled uuids k' (left @ right')"
    using l p(2,3,5) disj later by (auto simp: settled_def)
  from a merged p(1) s show ?thesis
    by (simp add: add_messages_def assign_ids_settled [OF l(1)])
qed


subsection \<open>The compiled graph and the graph on what the messages say\<close>

text \<open>
  When the identifiers in the state are in order and no identifier is drawn twice, a run
  of the compiled graph with a model that reads what the messages say is, on what the
  messages say, the run of \<open>run_graph\<close>.
\<close>

lemma given_ids_no_ids [simp]: "given_ids (map (BaseMessage None) ps) = []"
  by (induction ps) (simp_all add: given_ids_Cons)

lemma add_messages_id_less:
  assumes "inj uuids" "settled uuids k left"
  shows "\<exists>right' k'. add_messages uuids k left (map (BaseMessage None) ps) = (left @ right', k')
     \<and> map payload right' = ps \<and> settled uuids k' (left @ right')"
  using add_messages_fresh [OF assms, of "map (BaseMessage None) ps"]
  by (simp add: comp_def)

lemma agent_node_on_contents:
  "agent_node (on_contents llm) state = [BaseMessage None (llm (map payload state))]"
  by (simp add: agent_node_def on_contents_def)

lemma event_contents_simps:
  "event_contents (ModelCall state) = ModelCall (map payload state)"
  "event_contents (ToolRun call) = ToolRun call"
  by (simp_all add: event_contents_def)

lemma edge_contents:
  assumes "\<And>state calls k. settled uuids k state \<Longrightarrow>
      contents (run_graph_ids (on_contents llm) ex uuids n tools (state, calls, k))
        = run_graph llm ex n tools (map payload state, map event_contents calls)"
    and "settled uuids k state"
  shows "contents (conditional_edge_ids (on_contents llm) ex uuids n (state, calls, k))
        = conditional_edge llm ex n (map payload state, map event_contents calls)"
proof (cases "should_continue (map payload state)")
  case (Inl e)
  then show ?thesis by (simp add: contents_def)
next
  case (Inr route)
  then show ?thesis
    using assms(1) [OF assms(2), of calls]
    by (simp add: contents_def)
qed

lemma run_graph_ids_contents:
  assumes "inj uuids"
  shows "settled uuids k state \<Longrightarrow>
      contents (run_graph_ids (on_contents llm) ex uuids n nd (state, calls, k))
        = run_graph llm ex n nd (map payload state, map event_contents calls)"
proof (induction n arbitrary: nd state calls k)
  case 0
  then show ?case by (simp add: contents_def)
next
  case (Suc n)
  have edge: "contents (conditional_edge_ids (on_contents llm) ex uuids n (state', calls', k'))
        = conditional_edge llm ex n (map payload state', map event_contents calls')"
    if "settled uuids k' state'" for state' calls' k'
    using Suc.IH that by (intro edge_contents) simp_all
  show ?case
  proof (cases nd)
    case agent
    from add_messages_id_less [OF assms Suc.prems, of "[llm (map payload state)]"]
    obtain right' k' where
      a: "add_messages uuids k state [BaseMessage None (llm (map payload state))]
            = (state @ right', k')"
      and p: "map payload right' = [llm (map payload state)]"
      and s: "settled uuids k' (state @ right')"
      by auto
    from edge [OF s, of "calls @ [ModelCall state]"] a p agent show ?thesis
      by (simp add: agent_node_on_contents event_contents_simps
          agent_node_def [of llm "map payload state"]
          del: conditional_edge_ids.simps conditional_edge.simps)
  next
    case tools
    show ?thesis
    proof (cases "tool_node ex (map payload state)")
      case (Inl e)
      with tools show ?thesis by (simp add: contents_def)
    next
      case (Inr results)
      then have ne: "state \<noteq> []"
        by (auto simp: tool_node_def split: if_splits)
      from add_messages_id_less [OF assms Suc.prems, of results]
      obtain right' k' where
        a: "add_messages uuids k state (map (BaseMessage None) results) = (state @ right', k')"
        and p: "map payload right' = results"
        and s: "settled uuids k' (state @ right')"
        by auto
      from Suc.IH [OF s, of agent] a p Inr tools ne show ?thesis
        by (simp add: last_map event_contents_simps comp_def)
    qed
  qed
qed

lemma graph_invoke_contents:
  assumes "collision_free uuids input"
  shows "contents (graph_invoke (on_contents llm) ex uuids budget input)
           = run_graph llm ex budget agent (map payload input, [])"
proof -
  from assms have i: "inj uuids" "distinct (given_ids input)"
    "\<forall>j. uuids j \<notin> set (given_ids input)"
    by (simp_all add: collision_free_def)
  have e: "settled uuids 0 []" by (simp add: settled_def)
  from add_messages_fresh [OF i(1) e i(2,3)] obtain state k where
    a: "add_messages uuids 0 [] input = (state, k)"
    and p: "map payload state = map payload input"
    and s: "settled uuids k state"
    by auto
  from run_graph_ids_contents [OF i(1) s, of llm ex budget agent "[]"] a p show ?thesis
    by (simp add: graph_invoke_def)
qed


text \<open>A message of the update that repeats an identifier replaces the message that has it.\<close>

lemma add_messages_replaces_repeated_id:
  "add_messages (draws CHR ''u'') 0 []
     [BaseMessage (Some ''x'') (HumanMessage ''Hello''),
      BaseMessage (Some ''x'') (AIMessage ''Hi there!'' []),
      BaseMessage None (HumanMessage ''Plan a trip'')]
   = ([BaseMessage (Some ''x'') (AIMessage ''Hi there!'' []),
       BaseMessage (Some ''u'') (HumanMessage ''Plan a trip'')], 1)"
  by code_simp

subsection \<open>Claims about seeding and determinism\<close>

lemma draws_inj: "inj (draws c)"
proof (rule injI)
  fix x y assume "draws c x = draws c y"
  then have "length (draws c x) = length (draws c y)" by simp
  then show "x = y" by (simp add: draws_def)
qed

lemma collision_free_no_ids:
  "given_ids input = [] \<Longrightarrow> collision_free (draws c) input"
  by (simp add: collision_free_def draws_inj)

lemma upt_3: "[0..<Suc (Suc (Suc 0))] = [0, Suc 0, Suc (Suc 0)]"
  by (simp add: upt_rec)

lemma seed_messages_eq:
  "seed_messages user_message chat_history =
     BaseMessage None (SystemMessage SYSTEM_PROMPT)
       # (case chat_history of None \<Rightarrow> [] | Some h \<Rightarrow> h)
       @ [BaseMessage None (HumanMessage user_message)]"
  by (simp add: seed_messages_def Let_def split: option.splits)

lemma given_ids_append: "given_ids (xs @ ys) = given_ids xs @ given_ids ys"
  by (induction xs) (simp_all add: given_ids_Cons split: option.splits)

lemma given_ids_seed:
  "given_ids (seed_messages user_message chat_history)
     = given_ids (case chat_history of None \<Rightarrow> [] | Some h \<Rightarrow> h)"
  by (simp add: seed_messages_eq given_ids_Cons given_ids_append)

text \<open>
  C3. For every user message and every chat history, absent, empty or not, the message
  list that \<open>invoke_agent\<close> builds is one system message holding \<open>SYSTEM_PROMPT\<close>, then
  the messages of the history in their order, then one user message holding the user
  message, and the result of \<open>invoke_agent\<close> is the last message of the graph invoked on
  exactly this list, whatever the model is. When the identifiers of the history do not
  collide, the first call to the model receives messages that say exactly this, in this
  order.
\<close>

theorem loop_seeding:
  "seed_messages user_message chat_history =
     BaseMessage None (SystemMessage SYSTEM_PROMPT)
       # (case chat_history of None \<Rightarrow> [] | Some h \<Rightarrow> h)
       @ [BaseMessage None (HumanMessage user_message)]
   \<and> invoke_agent llm ex uuids budget user_message chat_history =
       last_message (graph_invoke llm ex uuids budget
         (BaseMessage None (SystemMessage SYSTEM_PROMPT)
            # (case chat_history of None \<Rightarrow> [] | Some h \<Rightarrow> h)
            @ [BaseMessage None (HumanMessage user_message)]))
   \<and> (collision_free uuids (case chat_history of None \<Rightarrow> [] | Some h \<Rightarrow> h) \<longrightarrow>
       (\<exists>state k.
          add_messages uuids 0 [] (seed_messages user_message chat_history) = (state, k)
          \<and> map payload state =
              SystemMessage SYSTEM_PROMPT
                # map payload (case chat_history of None \<Rightarrow> [] | Some h \<Rightarrow> h)
                @ [HumanMessage user_message]
          \<and> graph_invoke llm ex uuids (Suc n) (seed_messages user_message chat_history) =
              conditional_edge_ids llm ex uuids n
                (fst (add_messages uuids k state [llm state]), [ModelCall state],
                 snd (add_messages uuids k state [llm state]))))"
proof (intro conjI impI)
  show "seed_messages user_message chat_history =
     BaseMessage None (SystemMessage SYSTEM_PROMPT)
       # (case chat_history of None \<Rightarrow> [] | Some h \<Rightarrow> h)
       @ [BaseMessage None (HumanMessage user_message)]"
    by (rule seed_messages_eq)
  show "invoke_agent llm ex uuids budget user_message chat_history =
       last_message (graph_invoke llm ex uuids budget
         (BaseMessage None (SystemMessage SYSTEM_PROMPT)
            # (case chat_history of None \<Rightarrow> [] | Some h \<Rightarrow> h)
            @ [BaseMessage None (HumanMessage user_message)]))"
    by (simp add: invoke_agent_def seed_messages_eq)
next
  assume c: "collision_free uuids (case chat_history of None \<Rightarrow> [] | Some h \<Rightarrow> h)"
  let ?seed = "seed_messages user_message chat_history"
  from c have i: "inj uuids" "distinct (given_ids ?seed)" "\<forall>j. uuids j \<notin> set (given_ids ?seed)"
    by (simp_all add: collision_free_def given_ids_seed)
  have e: "settled uuids 0 []" by (simp add: settled_def)
  from add_messages_fresh [OF i(1) e i(2,3)] obtain state k where
    a: "add_messages uuids 0 [] ?seed = (state, k)"
    and p: "map payload state = map payload ?seed"
    by auto
  from p have p': "map payload state =
              SystemMessage SYSTEM_PROMPT
                # map payload (case chat_history of None \<Rightarrow> [] | Some h \<Rightarrow> h)
                @ [HumanMessage user_message]"
    by (simp add: seed_messages_eq)
  have g: "graph_invoke llm ex uuids (Suc n) ?seed =
              conditional_edge_ids llm ex uuids n
                (fst (add_messages uuids k state [llm state]), [ModelCall state],
                 snd (add_messages uuids k state [llm state]))"
    using a
    by (simp add: graph_invoke_def agent_node_def case_prod_beta
        del: conditional_edge_ids.simps)
  from a p' g show "\<exists>state k.
          add_messages uuids 0 [] ?seed = (state, k)
          \<and> map payload state =
              SystemMessage SYSTEM_PROMPT
                # map payload (case chat_history of None \<Rightarrow> [] | Some h \<Rightarrow> h)
                @ [HumanMessage user_message]
          \<and> graph_invoke llm ex uuids (Suc n) ?seed =
              conditional_edge_ids llm ex uuids n
                (fst (add_messages uuids k state [llm state]), [ModelCall state],
                 snd (add_messages uuids k state [llm state]))"
    by (intro exI [of _ state] exI [of _ k] conjI)
qed

theorem loop_seeding_witness:
  "collision_free (draws CHR ''u'')
     [BaseMessage None (HumanMessage ''Hello''), BaseMessage (Some ''m2'') (AIMessage ''Hi there!'' [])]
   \<and> seed_messages ''Plan a trip''
       (Some [BaseMessage None (HumanMessage ''Hello''),
              BaseMessage (Some ''m2'') (AIMessage ''Hi there!'' [])])
     = [BaseMessage None (SystemMessage SYSTEM_PROMPT),
        BaseMessage None (HumanMessage ''Hello''),
        BaseMessage (Some ''m2'') (AIMessage ''Hi there!'' []),
        BaseMessage None (HumanMessage ''Plan a trip'')]
   \<and> seed_messages ''Hello'' None
     = [BaseMessage None (SystemMessage SYSTEM_PROMPT), BaseMessage None (HumanMessage ''Hello'')]
   \<and> seed_messages ''Hello'' (Some [])
     = [BaseMessage None (SystemMessage SYSTEM_PROMPT), BaseMessage None (HumanMessage ''Hello'')]
   \<and> invoke_agent (on_contents describe_llm) (weather_only test_settings) (draws CHR ''u'')
       (Suc 0) ''Plan a trip''
       (Some [BaseMessage None (HumanMessage ''Hello''),
              BaseMessage (Some ''m2'') (AIMessage ''Hi there!'' [])])
     = Some (Inr (BaseMessage (Some ''uuuu'')
         (AIMessage ''system human ai human Plan a trip'' [])))"
proof -
  have c: "collision_free (draws CHR ''u'')
     [BaseMessage None (HumanMessage ''Hello''), BaseMessage (Some ''m2'') (AIMessage ''Hi there!'' [])]"
    by (auto simp: collision_free_def draws_inj given_ids_Cons draws_def)
  have r: "last_message (graph_invoke (on_contents describe_llm) (weather_only test_settings)
       (draws CHR ''u'') (Suc 0)
       [BaseMessage None (SystemMessage SYSTEM_PROMPT),
        BaseMessage None (HumanMessage ''Hello''),
        BaseMessage (Some ''m2'') (AIMessage ''Hi there!'' []),
        BaseMessage None (HumanMessage ''Plan a trip'')])
     = Some (Inr (BaseMessage (Some ''uuuu'')
         (AIMessage ''system human ai human Plan a trip'' [])))"
    by (simp add: graph_invoke_def add_messages_def merge_message_def index_by_id_def
        last_message_def on_contents_def describe_llm_def role_of_def text_of_def
        agent_node_def should_continue_def END_def draws_def upt_3 upt_rec [of 0 "Suc 0"]
        eval_nat_numeral)
  show ?thesis
    using loop_seeding [of "''Plan a trip''"
        "Some [BaseMessage None (HumanMessage ''Hello''),
               BaseMessage (Some ''m2'') (AIMessage ''Hi there!'' [])]"
        "on_contents describe_llm" "weather_only test_settings" "draws CHR ''u''" "Suc 0" 0]
      loop_seeding [of "''Hello''" None] loop_seeding [of "''Hello''" "Some []"] c r
    by simp
qed

text \<open>
  C8, as the code has it. Take a model that reads what the messages say and answers
  without an identifier, and tools that are functions of the call. Two runs of the graph
  from the same input, each with its own draws of identifiers, neither colliding, agree
  on everything but the identifiers drawn: the same outcome, the same messages in the
  same order with the same final message, and the same calls to the model and to the
  tools, namely those of \<open>run_graph\<close> on what the input says.
\<close>

theorem contents_deterministic:
  assumes "collision_free uuids1 input" and "collision_free uuids2 input"
  shows "contents (graph_invoke (on_contents llm) ex uuids1 budget input)
           = contents (graph_invoke (on_contents llm) ex uuids2 budget input)
    \<and> contents (graph_invoke (on_contents llm) ex uuids1 budget input)
           = run_graph llm ex budget agent (map payload input, [])"
  using graph_invoke_contents [OF assms(1)] graph_invoke_contents [OF assms(2)]
  by simp

theorem contents_deterministic_witness:
  "collision_free (draws CHR ''a'') [BaseMessage None (HumanMessage ''Plan 5 days in Kyoto'')]
   \<and> collision_free (draws CHR ''b'') [BaseMessage None (HumanMessage ''Plan 5 days in Kyoto'')]
   \<and> contents (graph_invoke (on_contents kyoto_llm) (weather_only test_settings)
        (draws CHR ''a'') (Suc (Suc (Suc 0)))
        [BaseMessage None (HumanMessage ''Plan 5 days in Kyoto'')])
      = Some (Inr
          ([HumanMessage ''Plan 5 days in Kyoto'', AIMessage [] [kyoto_call],
            ToolMessage (PDict (get_weather test_settings ''Kyoto'' ''2025-04-01''))
              ''get_weather'' ''call_1'',
            AIMessage ''Pack an umbrella.'' []],
           [ModelCall [HumanMessage ''Plan 5 days in Kyoto''],
            ToolRun kyoto_call,
            ModelCall [HumanMessage ''Plan 5 days in Kyoto'', AIMessage [] [kyoto_call],
              ToolMessage (PDict (get_weather test_settings ''Kyoto'' ''2025-04-01''))
                ''get_weather'' ''call_1'']]))
   \<and> contents (graph_invoke (on_contents kyoto_llm) (weather_only test_settings)
        (draws CHR ''b'') (Suc (Suc (Suc 0)))
        [BaseMessage None (HumanMessage ''Plan 5 days in Kyoto'')])
      = contents (graph_invoke (on_contents kyoto_llm) (weather_only test_settings)
        (draws CHR ''a'') (Suc (Suc (Suc 0)))
        [BaseMessage None (HumanMessage ''Plan 5 days in Kyoto'')])"
proof -
  have a: "collision_free (draws CHR ''a'') [BaseMessage None (HumanMessage ''Plan 5 days in Kyoto'')]"
    and b: "collision_free (draws CHR ''b'') [BaseMessage None (HumanMessage ''Plan 5 days in Kyoto'')]"
    by (simp_all add: collision_free_no_ids given_ids_Cons)
  show ?thesis
    using contents_deterministic [OF a b, of kyoto_llm "weather_only test_settings"
        "Suc (Suc (Suc 0))"]
      contents_deterministic [OF b a, of kyoto_llm "weather_only test_settings"
        "Suc (Suc (Suc 0))"] a b
    by (simp add: kyoto_llm_def tool_message_def weather_only_def kyoto_call_def END_def
        should_continue_def agent_node_def tool_node_def)
qed

text \<open>
  The claim as stated fails: the same model stub, the same tools and the same input,
  run twice with different draws of identifiers, end in different final messages.
\<close>

theorem loop_deterministic_counterexample:
  "graph_invoke (on_contents mock_llm) (weather_only test_settings) (draws CHR ''a'') (Suc 0)
      [BaseMessage None (HumanMessage ''Hello'')]
     = Some (Inr
         ([BaseMessage (Some ''a'') (HumanMessage ''Hello''),
           BaseMessage (Some ''aa'') (AIMessage ''Mock response from Atlas.'' [])],
          [ModelCall [BaseMessage (Some ''a'') (HumanMessage ''Hello'')]],
          2))
   \<and> graph_invoke (on_contents mock_llm) (weather_only test_settings) (draws CHR ''b'') (Suc 0)
      [BaseMessage None (HumanMessage ''Hello'')]
     = Some (Inr
         ([BaseMessage (Some ''b'') (HumanMessage ''Hello''),
           BaseMessage (Some ''bb'') (AIMessage ''Mock response from Atlas.'' [])],
          [ModelCall [BaseMessage (Some ''b'') (HumanMessage ''Hello'')]],
          2))
   \<and> graph_invoke (on_contents mock_llm) (weather_only test_settings) (draws CHR ''a'') (Suc 0)
      [BaseMessage None (HumanMessage ''Hello'')]
     \<noteq> graph_invoke (on_contents mock_llm) (weather_only test_settings) (draws CHR ''b'') (Suc 0)
      [BaseMessage None (HumanMessage ''Hello'')]
   \<and> invoke_agent (on_contents mock_llm) (weather_only test_settings) (draws CHR ''a'') (Suc 0)
      ''Hello'' None
     = Some (Inr (BaseMessage (Some ''aaa'') (AIMessage ''Mock response from Atlas.'' [])))
   \<and> invoke_agent (on_contents mock_llm) (weather_only test_settings) (draws CHR ''b'') (Suc 0)
      ''Hello'' None
     = Some (Inr (BaseMessage (Some ''bbb'') (AIMessage ''Mock response from Atlas.'' [])))"
  by code_simp


section \<open>Properties of the domain models\<close>

subsection \<open>Reading back ISO 8601 text\<close>

lemma digit_val_digit_char_all:
  "list_all (\<lambda>d. digit_val (digit_char d) = Some d) [0..<10]"
  by code_simp

lemma digit_val_digit_char:
  assumes "d < 10"
  shows "digit_val (digit_char d) = Some d"
  using digit_val_digit_char_all assms by (simp add: list_all_iff)

lemma str_nat_small: "n < 10 \<Longrightarrow> str_nat n = [digit_char n]"
  by (subst str_nat.simps) simp

lemma str_nat_step: "10 \<le> n \<Longrightarrow> str_nat n = str_nat (n div 10) @ [digit_char (n mod 10)]"
  by (subst str_nat.simps) simp

lemma digit_char_mod: "digit_char (n mod 10) = digit_char n"
  by (simp add: digit_char_def)

lemma length_str_nat_bound: "n < 10 ^ k \<Longrightarrow> 0 < k \<Longrightarrow> length (str_nat n) \<le> k"
proof (induction k arbitrary: n)
  case 0
  then show ?case by simp
next
  case (Suc k)
  show ?case
  proof (cases "n < 10")
    case True
    then show ?thesis by (simp add: str_nat_small del: str_nat.simps)
  next
    case False
    then have k: "0 < k" using Suc.prems by (cases k) auto
    from Suc.prems have "n div 10 < 10 ^ k" by (simp add: less_mult_imp_div_less mult.commute)
    from Suc.IH [OF this k] False show ?thesis
      by (simp add: str_nat_step del: str_nat.simps)
  qed
qed

lemma length_digits_of [simp]: "length (digits_of k n) = k"
  by (induction k arbitrary: n) simp_all

lemma digits_of_zero: "digits_of k 0 = replicate k (CHR ''0'')"
  by (induction k) (simp_all add: digit_char_def replicate_append_same)

lemma zero_pad_digits:
  assumes "n < 10 ^ k" "0 < k"
  shows "zero_pad k n = digits_of k n"
  using assms
proof (induction k arbitrary: n)
  case 0
  then show ?case by simp
next
  case (Suc k)
  show ?case
  proof (cases "n < 10")
    case True
    then show ?thesis
      by (simp add: zero_pad_def str_nat_small digits_of_zero digit_char_mod
          replicate_append_same del: str_nat.simps)
  next
    case False
    then have k: "0 < k" using Suc.prems by (cases k) auto
    from Suc.prems have d: "n div 10 < 10 ^ k" by (simp add: less_mult_imp_div_less mult.commute)
    from length_str_nat_bound [OF d k] have l: "length (str_nat (n div 10)) \<le> k" .
    from Suc.IH [OF d k] have "zero_pad k (n div 10) = digits_of k (n div 10)" .
    with False l show ?thesis
      by (simp add: zero_pad_def str_nat_step Suc_diff_le del: str_nat.simps)
  qed
qed

lemma digits_val_append:
  "digits_val acc (xs @ ys) = (case digits_val acc xs of None \<Rightarrow> None | Some v \<Rightarrow> digits_val v ys)"
  by (induction xs arbitrary: acc) (simp_all split: option.splits)

lemma digits_val_digits_of:
  assumes "n < 10 ^ k"
  shows "digits_val acc (digits_of k n) = Some (acc * 10 ^ k + n)"
  using assms
proof (induction k arbitrary: n acc)
  case 0
  then show ?case by simp
next
  case (Suc k)
  from Suc.prems have d: "n div 10 < 10 ^ k" by (simp add: less_mult_imp_div_less mult.commute)
  have m: "n mod 10 < 10" by simp
  have "acc * 10 ^ k * 10 + (n div 10) * 10 + n mod 10 = acc * (10 * 10 ^ k) + n"
    by (simp add: algebra_simps)
  then show ?case
    by (simp add: digits_val_append Suc.IH [OF d] digit_val_digit_char [OF m] algebra_simps)
qed

lemma list2: "length xs = 2 \<Longrightarrow> \<exists>a b. xs = [a, b]"
  by (auto simp: length_Suc_conv numeral_2_eq_2)

lemma list4: "length xs = 4 \<Longrightarrow> \<exists>a b c d. xs = [a, b, c, d]"
  by (auto simp: length_Suc_conv eval_nat_numeral)

lemma list6: "length xs = 6 \<Longrightarrow> \<exists>a b c d e f. xs = [a, b, c, d, e, f]"
  by (auto simp: length_Suc_conv eval_nat_numeral)

lemma zero_pad_chars:
  assumes "n < 10 ^ k" "0 < k"
  shows "length (zero_pad k n) = k \<and> digits_val 0 (zero_pad k n) = Some n"
  using assms by (simp add: zero_pad_digits digits_val_digits_of del: str_nat.simps)

lemma read_date_isoformat:
  assumes "valid_date d"
  shows "read_date (date_isoformat d @ rest) = Some (d, rest)"
proof -
  obtain y m dd where d: "d = Date y m dd" by (cases d)
  from assms d have b: "y < 10 ^ 4" "m < 10 ^ 2" "dd < 10 ^ 2"
    by (auto simp: valid_date_def days_in_month_def split: if_splits)
  from zero_pad_chars [OF b(1)] obtain y1 y2 y3 y4 where
    y: "zero_pad 4 y = [y1, y2, y3, y4]" "digits_val 0 [y1, y2, y3, y4] = Some y"
    using list4 by (metis zero_less_numeral)
  from zero_pad_chars [OF b(2)] obtain m1 m2 where
    m: "zero_pad 2 m = [m1, m2]" "digits_val 0 [m1, m2] = Some m"
    using list2 by (metis zero_less_numeral)
  from zero_pad_chars [OF b(3)] obtain d1 d2 where
    dd: "zero_pad 2 dd = [d1, d2]" "digits_val 0 [d1, d2] = Some dd"
    using list2 by (metis zero_less_numeral)
  show ?thesis
    using assms
    by (simp add: date_isoformat_def d y m dd del: digits_val.simps str_nat.simps)
qed

lemma date_fromisoformat_isoformat:
  "valid_date d \<Longrightarrow> date_fromisoformat (date_isoformat d) = Some d"
  using read_date_isoformat [of d "[]"] by (simp add: date_fromisoformat_def)

lemma read_time_isoformat:
  assumes "h < 24" "m < 60" "s < 60"
  shows "read_time (zero_pad 2 h @ '':'' @ zero_pad 2 m @ '':'' @ zero_pad 2 s @ rest)
           = Some ((h, m, s), rest)"
proof -
  from assms have b: "h < 10 ^ 2" "m < 10 ^ 2" "s < 10 ^ 2" by simp_all
  from zero_pad_chars [OF b(1)] obtain h1 h2 where
    h: "zero_pad 2 h = [h1, h2]" "digits_val 0 [h1, h2] = Some h"
    using list2 by (metis zero_less_numeral)
  from zero_pad_chars [OF b(2)] obtain m1 m2 where
    m: "zero_pad 2 m = [m1, m2]" "digits_val 0 [m1, m2] = Some m"
    using list2 by (metis zero_less_numeral)
  from zero_pad_chars [OF b(3)] obtain s1 s2 where
    s: "zero_pad 2 s = [s1, s2]" "digits_val 0 [s1, s2] = Some s"
    using list2 by (metis zero_less_numeral)
  show ?thesis
    using assms by (simp add: h m s del: digits_val.simps str_nat.simps)
qed

lemma read_offset_isoformat:
  assumes "case tz of None \<Rightarrow> True | Some off \<Rightarrow> - 1440 < off \<and> off < 1440"
  shows "read_offset (offset_isoformat tz) = Some tz"
proof (cases tz)
  case None
  then show ?thesis by (simp add: offset_isoformat_def)
next
  case (Some off)
  show ?thesis
  proof (cases "off = 0")
    case True
    with Some show ?thesis by (simp add: offset_isoformat_def)
  next
    case False
    define a where "a = nat \<bar>off\<bar>"
    from assms Some have a: "a < 1440" by (auto simp: a_def abs_if)
    then have b: "a div 60 < 10 ^ 2" "a mod 60 < 10 ^ 2" by simp_all
    from a have hb: "a div 60 < 24" by simp
    from zero_pad_chars [OF b(1)] obtain h1 h2 where
      h: "zero_pad 2 (a div 60) = [h1, h2]" "digits_val 0 [h1, h2] = Some (a div 60)"
      using list2 by (metis zero_less_numeral)
    from zero_pad_chars [OF b(2)] obtain m1 m2 where
      m: "zero_pad 2 (a mod 60) = [m1, m2]" "digits_val 0 [m1, m2] = Some (a mod 60)"
      using list2 by (metis zero_less_numeral)
    have recompose: "a div 60 * 60 + a mod 60 = a"
      by simp
    have written: "offset_isoformat tz =
        (if off < 0 then ''-'' else ''+'') @ [h1, h2] @ '':'' @ [m1, m2]"
      using False Some by (simp add: offset_isoformat_def a_def [symmetric] h m)
    have sign: "off < 0 \<Longrightarrow> - int a = off" "\<not> off < 0 \<Longrightarrow> int a = off"
      by (simp_all add: a_def)
    show ?thesis
      unfolding written
      using hb sign Some
      by (simp add: h m recompose del: digits_val.simps)
  qed
qed

lemma read_fraction_offset:
  assumes "case tz of None \<Rightarrow> True | Some off \<Rightarrow> - 1440 < off \<and> off < 1440"
  shows "read_fraction (offset_isoformat tz) = Some (0, offset_isoformat tz)"
proof (cases tz)
  case None
  then show ?thesis by (simp add: offset_isoformat_def)
next
  case (Some off)
  show ?thesis
  proof (cases "off = 0")
    case True
    with Some show ?thesis by (simp add: offset_isoformat_def)
  next
    case False
    define a where "a = nat \<bar>off\<bar>"
    from assms Some have a: "a < 1440" by (auto simp: a_def abs_if)
    then have b: "a div 60 < 10 ^ 2" "a mod 60 < 10 ^ 2" by simp_all
    from zero_pad_chars [OF b(1)] obtain h1 h2 where
      h: "zero_pad 2 (a div 60) = [h1, h2]"
      using list2 by (metis zero_less_numeral)
    from zero_pad_chars [OF b(2)] obtain m1 m2 where
      m: "zero_pad 2 (a mod 60) = [m1, m2]"
      using list2 by (metis zero_less_numeral)
    have written: "offset_isoformat tz =
        (if off < 0 then ''-'' else ''+'') @ [h1, h2] @ '':'' @ [m1, m2]"
      using False Some by (simp add: offset_isoformat_def a_def [symmetric] h m)
    show ?thesis
      unfolding written by simp
  qed
qed

lemma read_fraction_isoformat:
  assumes "us < 1000000"
  shows "read_fraction (''.'' @ zero_pad 6 us @ rest) = Some (us, rest)"
proof -
  from assms have b: "us < 10 ^ 6" by simp
  from zero_pad_chars [OF b] obtain f1 f2 f3 f4 f5 f6 where
    f: "zero_pad 6 us = [f1, f2, f3, f4, f5, f6]" "digits_val 0 [f1, f2, f3, f4, f5, f6] = Some us"
    using list6 by (metis zero_less_numeral)
  show ?thesis
    by (simp add: f del: digits_val.simps str_nat.simps)
qed

lemma datetime_fromisoformat_isoformat:
  assumes "valid_datetime t"
  shows "datetime_fromisoformat (datetime_isoformat t) = Some t"
proof -
  obtain d h m s us tz where t: "t = DateTime d h m s us tz" by (cases t)
  from assms t have v: "valid_date d" "h < 24" "m < 60" "s < 60" "us < 1000000"
    and o: "case tz of None \<Rightarrow> True | Some off \<Rightarrow> - 1440 < off \<and> off < 1440"
    by (simp_all add: valid_datetime_def)
  show ?thesis
  proof (cases "us = 0")
    case True
    then show ?thesis
      using read_date_isoformat [OF v(1)] read_time_isoformat [OF v(2,3,4)]
        read_fraction_offset [OF o] read_offset_isoformat [OF o]
      by (simp add: datetime_fromisoformat_def datetime_isoformat_def t
          del: read_date.simps read_time.simps read_fraction.simps read_offset.simps str_nat.simps)
  next
    case False
    then show ?thesis
      using read_date_isoformat [OF v(1)] read_time_isoformat [OF v(2,3,4)]
        read_fraction_isoformat [OF v(5)] read_offset_isoformat [OF o]
      by (simp add: datetime_fromisoformat_def datetime_isoformat_def t
          del: read_date.simps read_time.simps read_fraction.simps read_offset.simps str_nat.simps)
  qed
qed

subsection \<open>Validating what \<open>model_dump\<close> wrote\<close>

lemma field_Inr [simp]: "field (Inr g) (Inr v) = Inr (g v)"
  by (simp add: field_def)

lemma under_Inr [simp]: "under l (Inr v) = Inr v"
  by (simp add: under_def)

lemma v_items_dump:
  assumes "\<And>x. v (d x) = Inr x"
  shows "v_items v i (map d xs) = Inr xs"
  by (induction xs arbitrary: i) (simp_all add: assms)

lemma v_list_dump:
  assumes "\<And>x. v (d x) = Inr x"
  shows "v_list v (PList (map d xs)) = Inr xs"
  by (simp add: v_list_def v_items_dump [OF assms])

lemma v_items_dump_valid:
  assumes "\<And>x. P x \<Longrightarrow> v (d x) = Inr x" and "list_all P xs"
  shows "v_items v i (map d xs) = Inr xs"
  using assms(2) by (induction xs arbitrary: i) (simp_all add: assms(1))

lemma v_list_dump_valid:
  assumes "\<And>x. P x \<Longrightarrow> v (d x) = Inr x" and "list_all P xs"
  shows "v_list v (PList (map d xs)) = Inr xs"
  by (simp add: v_list_def v_items_dump_valid [OF assms])

lemma v_date_written: "valid_date d \<Longrightarrow> v_date (dump_date md d) = Inr d"
  by (cases md) (simp_all add: v_date_def dump_date_def date_fromisoformat_isoformat)

lemma v_datetime_written: "valid_datetime t \<Longrightarrow> v_datetime (dump_datetime md t) = Inr t"
  by (cases md) (simp_all add: v_datetime_def dump_datetime_def datetime_fromisoformat_isoformat)

lemma v_str_dump [simp]: "v_str (PStr s) = Inr s"
  by (simp add: v_str_def)

lemma v_int_dump [simp]: "v_int (PInt n) = Inr n"
  by (simp add: v_int_def)

lemma v_float_dump [simp]: "v_float (PFloat r) = Inr r"
  by (simp add: v_float_def)

lemma v_date_dump [simp]: "v_date (PDate d) = Inr d"
  by (simp add: v_date_def)

lemma v_datetime_dump [simp]: "v_datetime (PDateTime t) = Inr t"
  by (simp add: v_datetime_def)

lemma v_str_list_dump [simp]: "v_list v_str (PList (map PStr xs)) = Inr xs"
  by (rule v_list_dump) simp

lemma v_optional_str_dump [simp]: "v_optional v_str (dump_optional PStr x) = Inr x"
  by (cases x) (simp_all add: v_optional_def dump_optional_def)

lemma v_optional_float_dump [simp]: "v_optional v_float (dump_optional PFloat x) = Inr x"
  by (cases x) (simp_all add: v_optional_def dump_optional_def)

lemma v_float_pair_dump [simp]: "v_float_pair (dump_float_pair md p) = Inr p"
  by (cases md) (simp_all add: v_float_pair_def dump_float_pair_def)

lemma v_optional_float_pair_dump [simp]:
  "v_optional v_float_pair (dump_optional (dump_float_pair md) x) = Inr x"
  by (cases x; cases md)
    (simp_all add: v_optional_def dump_optional_def dump_float_pair_def v_float_pair_def)

lemma TripPace_dump [simp]: "v_enum TripPace_members (dump_enum TripPace_members m) = Inr m"
  by (cases m) (simp_all add: v_enum_def dump_enum_def enum_value_def TripPace_members_def)

lemma ActivityCategory_dump [simp]:
  "v_enum ActivityCategory_members (dump_enum ActivityCategory_members m) = Inr m"
  by (cases m) (simp_all add: v_enum_def dump_enum_def enum_value_def ActivityCategory_members_def)

lemma TransitMode_dump [simp]:
  "v_enum TransitMode_members (dump_enum TransitMode_members m) = Inr m"
  by (cases m) (simp_all add: v_enum_def dump_enum_def enum_value_def TransitMode_members_def)

lemma DaySource_dump [simp]:
  "v_enum DaySource_members (dump_enum DaySource_members m) = Inr m"
  by (cases m) (simp_all add: v_enum_def dump_enum_def enum_value_def DaySource_members_def)

lemma NoteAuthor_dump [simp]:
  "v_enum NoteAuthor_members (dump_enum NoteAuthor_members m) = Inr m"
  by (cases m) (simp_all add: v_enum_def dump_enum_def enum_value_def NoteAuthor_members_def)

lemma TripPreferences_round_trip: "TripPreferences_validate (TripPreferences_dump md p) = Inr p"
  by (cases p) (simp add: TripPreferences_validate_def TripPreferences_dump_def with_default_def)

lemma Destination_round_trip: "Destination_validate (Destination_dump md d) = Inr d"
  by (cases d) (simp add: Destination_validate_def Destination_dump_def with_default_def required_def)

lemma ActivityNote_round_trip: "ActivityNote_validate (ActivityNote_dump md n) = Inr n"
  by (cases n) (simp add: ActivityNote_validate_def ActivityNote_dump_def with_default_def required_def)

lemma Activity_round_trip: "Activity_validate (Activity_dump md a) = Inr a"
  by (cases a) (simp add: Activity_validate_def Activity_dump_def with_default_def required_def
      v_list_dump [of ActivityNote_validate "ActivityNote_dump md", OF ActivityNote_round_trip])

lemma TravelSegment_round_trip: "TravelSegment_validate (TravelSegment_dump md s) = Inr s"
  by (cases s) (simp add: TravelSegment_validate_def TravelSegment_dump_def with_default_def required_def)

lemma ItineraryDay_round_trip:
  assumes "ItineraryDay_valid d"
  shows "ItineraryDay_validate (ItineraryDay_dump md d) = Inr d"
  using assms
  by (cases d) (simp add: ItineraryDay_validate_def ItineraryDay_dump_def with_default_def
      required_def ItineraryDay_valid_def v_date_written
      v_list_dump [of Activity_validate "Activity_dump md", OF Activity_round_trip]
      v_list_dump [of TravelSegment_validate "TravelSegment_dump md", OF TravelSegment_round_trip])

lemma Flight_round_trip:
  assumes "Flight_valid f"
  shows "Flight_validate (Flight_dump md f) = Inr f"
  using assms
  by (cases f) (simp add: Flight_validate_def Flight_dump_def with_default_def required_def
      Flight_valid_def v_datetime_written)

lemma Accommodation_round_trip:
  assumes "Accommodation_valid a"
  shows "Accommodation_validate (Accommodation_dump md a) = Inr a"
  using assms
  by (cases a) (simp add: Accommodation_validate_def Accommodation_dump_def with_default_def
      required_def Accommodation_valid_def v_date_written)

lemma ChatMessage_round_trip:
  assumes "ChatMessage_valid m"
  shows "ChatMessage_validate now (ChatMessage_dump md m) = Inr m"
  using assms
  by (cases m) (simp add: ChatMessage_validate_def ChatMessage_dump_def with_default_def
      required_def ChatMessage_valid_def v_datetime_written)

lemma UserProfile_round_trip:
  assumes "UserProfile_valid u"
  shows "UserProfile_validate now (UserProfile_dump md u) = Inr u"
  using assms
  by (cases u) (simp add: UserProfile_validate_def UserProfile_dump_def with_default_def
      UserProfile_valid_def v_datetime_written)

lemma date_lt_iff_not_le: "date_lt s e \<longleftrightarrow> \<not> date_le e s"
  by (cases s; cases e) (auto simp: date_lt_def date_le_def)

lemma Itinerary_round_trip:
  assumes "Itinerary_valid i"
  shows "Itinerary_validate now (Itinerary_dump md i) = Inr i"
proof -
  obtain d s e p ds fs acs c where i: "i = Itinerary d s e p ds fs acs c" by (cases i)
  from assms i have v: "valid_date s" "valid_date e" "date_lt s e" "list_all ItineraryDay_valid ds"
    "list_all Flight_valid fs" "list_all Accommodation_valid acs" "valid_datetime c"
    by (simp_all add: Itinerary_valid_def)
  have lists:
    "v_list ItineraryDay_validate (PList (map (ItineraryDay_dump md) ds)) = Inr ds"
    "v_list Flight_validate (PList (map (Flight_dump md) fs)) = Inr fs"
    "v_list Accommodation_validate (PList (map (Accommodation_dump md) acs)) = Inr acs"
    using v(4,5,6)
    by (auto intro: v_list_dump_valid [where P = ItineraryDay_valid]
        v_list_dump_valid [where P = Flight_valid]
        v_list_dump_valid [where P = Accommodation_valid]
        ItineraryDay_round_trip Flight_round_trip Accommodation_round_trip)
  from v(3) have "\<not> date_le e s" by (simp add: date_lt_iff_not_le)
  then show ?thesis
    by (simp add: i Itinerary_validate_def Itinerary_dump_def with_default_def required_def
        field_validator_def end_after_start_def lists
        v_date_written [OF v(1)] v_date_written [OF v(2)] v_datetime_written [OF v(7)]
        Destination_round_trip TripPreferences_round_trip)
qed

subsection \<open>Claims about the domain models\<close>

text \<open>
  C7. For every well-formed instance of each model class and for both modes of
  \<open>model_dump\<close>, the Python mode and the JSON mode in which dates and datetimes are ISO
  8601 text and tuples are lists, validating what \<open>model_dump\<close> wrote gives back the
  instance, field for field, nested lists included. Well formed means that the dates
  and datetimes are dates of the calendar and times of day, as Python's objects are,
  and that an \<open>Itinerary\<close> has its \<open>end_date\<close> after its \<open>start_date\<close>.
\<close>

theorem model_round_trip:
  "TripPreferences_validate (TripPreferences_dump md p) = Inr p
   \<and> Destination_validate (Destination_dump md d) = Inr d
   \<and> ActivityNote_validate (ActivityNote_dump md n) = Inr n
   \<and> Activity_validate (Activity_dump md a) = Inr a
   \<and> TravelSegment_validate (TravelSegment_dump md s) = Inr s
   \<and> (ItineraryDay_valid dy \<longrightarrow> ItineraryDay_validate (ItineraryDay_dump md dy) = Inr dy)
   \<and> (Flight_valid f \<longrightarrow> Flight_validate (Flight_dump md f) = Inr f)
   \<and> (Accommodation_valid ac \<longrightarrow> Accommodation_validate (Accommodation_dump md ac) = Inr ac)
   \<and> (Itinerary_valid i \<longrightarrow> Itinerary_validate now (Itinerary_dump md i) = Inr i)
   \<and> (ChatMessage_valid m \<longrightarrow> ChatMessage_validate now (ChatMessage_dump md m) = Inr m)
   \<and> (UserProfile_valid u \<longrightarrow> UserProfile_validate now (UserProfile_dump md u) = Inr u)"
  by (simp add: TripPreferences_round_trip Destination_round_trip ActivityNote_round_trip
      Activity_round_trip TravelSegment_round_trip ItineraryDay_round_trip Flight_round_trip
      Accommodation_round_trip Itinerary_round_trip ChatMessage_round_trip
      UserProfile_round_trip)

theorem model_round_trip_witness:
  "Itinerary_valid sample_itinerary
   \<and> Itinerary_dump json sample_itinerary =
       PDict [(''destination'',
               PDict [(''name'', PStr ''Kyoto''), (''country'', PStr ''Japan''),
                      (''iata_code'', PStr ''KIX''),
                      (''coordinates'', PList [PFloat 35.0116, PFloat 135.7681])]),
              (''start_date'', PStr ''2025-04-01''),
              (''end_date'', PStr ''2025-04-06''),
              (''preferences'',
               PDict [(''traveler_count'', PInt 2), (''budget_usd'', PFloat 3000),
                      (''interests'',
                       PList [PStr ''temples'', PStr ''food'', PStr ''cherry blossom'']),
                      (''accessibility_needs'', PList []),
                      (''pace'', PStr ''moderate'')]),
              (''days'',
               PList [PDict [(''date'', PStr ''2025-04-01''),
                             (''activities'',
                              PList [PDict [(''title'', PStr ''Fushimi Inari Shrine''),
                                            (''description'',
                                             PStr ''Walk the thousand torii gates.''),
                                            (''duration_hours'', PFloat 2.5),
                                            (''category'', PStr ''sightseeing''),
                                            (''start_time'', PStr ''08:00''),
                                            (''end_time'', PStr ''10:30''),
                                            (''estimated_cost_usd'', PFloat 0),
                                            (''location'', PStr ''Fushimi Ward''),
                                            (''coordinates'', PNone),
                                            (''notes'', PList [])]]),
                             (''travel_segments'', PList []),
                             (''notes'', PStr []),
                             (''source'', PStr ''generated'')]]),
              (''flights'', PList []),
              (''accommodations'', PList []),
              (''created_at'', PStr ''2025-03-01T12:00:00Z'')]
   \<and> Itinerary_validate sample_created_at (Itinerary_dump json sample_itinerary)
       = Inr sample_itinerary
   \<and> Itinerary_validate sample_created_at (Itinerary_dump python sample_itinerary)
       = Inr sample_itinerary
   \<and> map (\<lambda>dy. map title (activities dy)) (days sample_itinerary) = [[''Fushimi Inari Shrine'']]
   \<and> Itinerary_valid full_itinerary
   \<and> Itinerary_validate sample_created_at (Itinerary_dump json full_itinerary)
       = Inr full_itinerary
   \<and> map (\<lambda>dy. map title (activities dy)) (days full_itinerary)
       = [[''Nishiki Market'', ''Fushimi Inari Shrine'']]
   \<and> Flight_valid sample_flight
   \<and> Flight_dump json sample_flight =
       PDict [(''airline'', PStr ''Japan Airlines''), (''flight_number'', PStr ''JL 43''),
              (''departure_airport'', PStr ''LHR''), (''arrival_airport'', PStr ''HND''),
              (''departure_time'', PStr ''2025-03-31T09:25:00+01:00''),
              (''arrival_time'', PStr ''2025-04-01T07:10:30.250000+09:00''),
              (''duration_hours'', PFloat 13.75), (''cabin_class'', PStr ''economy''),
              (''estimated_cost_usd'', PFloat 980)]
   \<and> Flight_validate (Flight_dump json sample_flight) = Inr sample_flight
   \<and> Accommodation_valid sample_accommodation
   \<and> Accommodation_validate (Accommodation_dump json sample_accommodation)
       = Inr sample_accommodation
   \<and> ChatMessage_valid sample_chat_message
   \<and> ChatMessage_dump json sample_chat_message =
       PDict [(''role'', PStr ''user''), (''content'', PStr ''Plan 5 days in Kyoto''),
              (''timestamp'', PStr ''2024-02-29T23:59:59'')]
   \<and> ChatMessage_validate sample_created_at (ChatMessage_dump json sample_chat_message)
       = Inr sample_chat_message
   \<and> UserProfile_valid sample_profile
   \<and> UserProfile_validate sample_created_at (UserProfile_dump json sample_profile)
       = Inr sample_profile"
proof -
  have vf: "Flight_valid sample_flight"
    by (simp add: Flight_valid_def sample_flight_def valid_datetime_def valid_date_def
        days_in_month_def)
  have wf: "Flight_dump json sample_flight =
       PDict [(''airline'', PStr ''Japan Airlines''), (''flight_number'', PStr ''JL 43''),
              (''departure_airport'', PStr ''LHR''), (''arrival_airport'', PStr ''HND''),
              (''departure_time'', PStr ''2025-03-31T09:25:00+01:00''),
              (''arrival_time'', PStr ''2025-04-01T07:10:30.250000+09:00''),
              (''duration_hours'', PFloat 13.75), (''cabin_class'', PStr ''economy''),
              (''estimated_cost_usd'', PFloat 980)]"
    by (simp add: Flight_dump_def sample_flight_def dump_optional_def dump_datetime_def
        date_isoformat_def datetime_isoformat_def offset_isoformat_def zero_pad_def
        digit_char_def)
  have va: "Accommodation_valid sample_accommodation"
    by (simp add: Accommodation_valid_def sample_accommodation_def valid_date_def
        days_in_month_def)
  have vc: "ChatMessage_valid sample_chat_message"
    by (simp add: ChatMessage_valid_def sample_chat_message_def valid_datetime_def
        valid_date_def days_in_month_def is_leap_def)
  have wc: "ChatMessage_dump json sample_chat_message =
       PDict [(''role'', PStr ''user''), (''content'', PStr ''Plan 5 days in Kyoto''),
              (''timestamp'', PStr ''2024-02-29T23:59:59'')]"
    by (simp add: ChatMessage_dump_def sample_chat_message_def dump_datetime_def
        date_isoformat_def datetime_isoformat_def offset_isoformat_def zero_pad_def
        digit_char_def)
  have vu: "UserProfile_valid sample_profile"
    by (simp add: UserProfile_valid_def sample_profile_def valid_datetime_def valid_date_def
        days_in_month_def)
  have vi: "Itinerary_valid full_itinerary"
    using vf va
    by (simp add: Itinerary_valid_def full_itinerary_def sample_created_at_def valid_date_def
        valid_datetime_def days_in_month_def date_lt_def ItineraryDay_valid_def)
  have ti: "map (\<lambda>dy. map title (activities dy)) (days full_itinerary)
       = [[''Nishiki Market'', ''Fushimi Inari Shrine'']]"
    by (simp add: full_itinerary_def sample_activity_def)
  have v: "Itinerary_valid sample_itinerary"
    by (simp add: Itinerary_valid_def sample_itinerary_def sample_created_at_def valid_date_def
        valid_datetime_def days_in_month_def date_lt_def ItineraryDay_valid_def)
  have w: "Itinerary_dump json sample_itinerary =
       PDict [(''destination'',
               PDict [(''name'', PStr ''Kyoto''), (''country'', PStr ''Japan''),
                      (''iata_code'', PStr ''KIX''),
                      (''coordinates'', PList [PFloat 35.0116, PFloat 135.7681])]),
              (''start_date'', PStr ''2025-04-01''),
              (''end_date'', PStr ''2025-04-06''),
              (''preferences'',
               PDict [(''traveler_count'', PInt 2), (''budget_usd'', PFloat 3000),
                      (''interests'',
                       PList [PStr ''temples'', PStr ''food'', PStr ''cherry blossom'']),
                      (''accessibility_needs'', PList []),
                      (''pace'', PStr ''moderate'')]),
              (''days'',
               PList [PDict [(''date'', PStr ''2025-04-01''),
                             (''activities'',
                              PList [PDict [(''title'', PStr ''Fushimi Inari Shrine''),
                                            (''description'',
                                             PStr ''Walk the thousand torii gates.''),
                                            (''duration_hours'', PFloat 2.5),
                                            (''category'', PStr ''sightseeing''),
                                            (''start_time'', PStr ''08:00''),
                                            (''end_time'', PStr ''10:30''),
                                            (''estimated_cost_usd'', PFloat 0),
                                            (''location'', PStr ''Fushimi Ward''),
                                            (''coordinates'', PNone),
                                            (''notes'', PList [])]]),
                             (''travel_segments'', PList []),
                             (''notes'', PStr []),
                             (''source'', PStr ''generated'')]]),
              (''flights'', PList []),
              (''accommodations'', PList []),
              (''created_at'', PStr ''2025-03-01T12:00:00Z'')]"
    by (simp add: Itinerary_dump_def sample_itinerary_def sample_destination_def
        sample_preferences_def sample_activity_def sample_created_at_def
        Destination_dump_def TripPreferences_dump_def ItineraryDay_dump_def Activity_dump_def
        dump_optional_def dump_float_pair_def dump_enum_def enum_value_def dump_date_def
        dump_datetime_def TripPace_members_def ActivityCategory_members_def
        DaySource_members_def date_isoformat_def datetime_isoformat_def offset_isoformat_def
        zero_pad_def digit_char_def)
  have t: "map (\<lambda>dy. map title (activities dy)) (days sample_itinerary)
      = [[''Fushimi Inari Shrine'']]"
    by (simp add: sample_itinerary_def sample_activity_def)
  from model_round_trip [of json _ _ _ _ _ _ sample_flight sample_accommodation
      sample_itinerary sample_created_at sample_chat_message sample_profile]
    model_round_trip [of python _ _ _ _ _ _ _ _ sample_itinerary sample_created_at]
    model_round_trip [of json _ _ _ _ _ _ _ _ full_itinerary sample_created_at]
    v vi vf va vc vu
  have "Itinerary_validate sample_created_at (Itinerary_dump json sample_itinerary)
          = Inr sample_itinerary"
    and "Itinerary_validate sample_created_at (Itinerary_dump json full_itinerary)
          = Inr full_itinerary"
    and "Itinerary_validate sample_created_at (Itinerary_dump python sample_itinerary)
          = Inr sample_itinerary"
    and "Flight_validate (Flight_dump json sample_flight) = Inr sample_flight"
    and "Accommodation_validate (Accommodation_dump json sample_accommodation)
          = Inr sample_accommodation"
    and "ChatMessage_validate sample_created_at (ChatMessage_dump json sample_chat_message)
          = Inr sample_chat_message"
    and "UserProfile_validate sample_created_at (UserProfile_dump json sample_profile)
          = Inr sample_profile"
    by simp_all
  with v w t vi ti vf wf va vc wc vu show ?thesis by simp
qed

text \<open>
  C1. Take keyword arguments in which \<open>start_date\<close> and \<open>end_date\<close> are dates and every
  other field of \<open>Itinerary\<close> is absent with a default or passes validation. If
  \<open>end_date\<close> is on or before \<open>start_date\<close>, construction fails with the single error
  line located at \<open>end_date\<close> whose message is "end_date must be after start_date"; if
  \<open>end_date\<close> is after \<open>start_date\<close>, construction succeeds and the instance has
  \<open>end_date\<close> after \<open>start_date\<close>. One of the two cases always applies.
\<close>

theorem itinerary_end_after_start:
  assumes "map_of kw ''start_date'' = Some (PDate s)"
    and "map_of kw ''end_date'' = Some (PDate e)"
    and "required ''destination'' Destination_validate kw = Inr d"
    and "with_default ''preferences'' default_TripPreferences TripPreferences_validate kw = Inr p"
    and "with_default ''days'' [] (v_list ItineraryDay_validate) kw = Inr ds"
    and "with_default ''flights'' [] (v_list Flight_validate) kw = Inr fs"
    and "with_default ''accommodations'' [] (v_list Accommodation_validate) kw = Inr acs"
    and "with_default ''created_at'' now v_datetime kw = Inr c"
  shows "(date_le e s \<longrightarrow>
           Itinerary_validate now (PDict kw) =
             Inl [ErrorDetails [Key ''end_date'']
                    (value_error ''end_date must be after start_date'')])
    \<and> (date_lt s e \<longrightarrow>
           Itinerary_validate now (PDict kw) = Inr (Itinerary d s e p ds fs acs c)
           \<and> date_lt (start_date (Itinerary d s e p ds fs acs c))
                (end_date (Itinerary d s e p ds fs acs c)))
    \<and> (date_le e s \<or> date_lt s e)"
  using assms
  by (simp add: Itinerary_validate_def required_def field_validator_def end_after_start_def
      date_lt_iff_not_le field_def)

theorem itinerary_end_after_start_witness:
  "Itinerary_validate sample_created_at
     (PDict [(''destination'', PDict [(''name'', PStr ''Kyoto''), (''country'', PStr ''Japan'')]),
             (''start_date'', PDate (Date 2025 4 5)),
             (''end_date'', PDate (Date 2025 4 5))])
     = Inl [ErrorDetails [Key ''end_date''] (value_error ''end_date must be after start_date'')]
   \<and> Itinerary_validate sample_created_at
     (PDict [(''destination'', PDict [(''name'', PStr ''Kyoto''), (''country'', PStr ''Japan'')]),
             (''start_date'', PDate (Date 2025 4 1)),
             (''end_date'', PDate (Date 2025 4 6))])
     = Inr (Itinerary (Destination ''Kyoto'' ''Japan'' None None) (Date 2025 4 1) (Date 2025 4 6)
              default_TripPreferences [] [] [] sample_created_at)"
  using itinerary_end_after_start [of
      "[(''destination'', PDict [(''name'', PStr ''Kyoto''), (''country'', PStr ''Japan'')]),
        (''start_date'', PDate (Date 2025 4 5)),
        (''end_date'', PDate (Date 2025 4 5))]"
      "Date 2025 4 5" "Date 2025 4 5" "Destination ''Kyoto'' ''Japan'' None None"
      default_TripPreferences "[]" "[]" "[]" sample_created_at sample_created_at]
    itinerary_end_after_start [of
      "[(''destination'', PDict [(''name'', PStr ''Kyoto''), (''country'', PStr ''Japan'')]),
        (''start_date'', PDate (Date 2025 4 1)),
        (''end_date'', PDate (Date 2025 4 6))]"
      "Date 2025 4 1" "Date 2025 4 6" "Destination ''Kyoto'' ''Japan'' None None"
      default_TripPreferences "[]" "[]" "[]" sample_created_at sample_created_at]
  by (simp add: required_def with_default_def Destination_validate_def date_le_def date_lt_def)

text \<open>
  C6, as the code has it. \<open>TripPreferences\<close> declares no bound on its fields: with an
  \<open>int\<close> for \<open>traveler_count\<close> and a \<open>float\<close> or None for \<open>budget_usd\<close>, whatever their
  values, and the other fields absent or valid, construction succeeds with exactly these
  values; an absent \<open>traveler_count\<close> is 1 and an absent \<open>pace\<close> is moderate.
\<close>

theorem trip_preferences_unbounded:
  assumes "with_default ''interests'' [] (v_list v_str) kw = Inr is"
    and "with_default ''accessibility_needs'' [] (v_list v_str) kw = Inr ns"
    and "with_default ''pace'' MODERATE (v_enum TripPace_members) kw = Inr pc"
  shows "(map_of kw ''traveler_count'' = Some (PInt n)
            \<and> map_of kw ''budget_usd'' = Some (dump_optional PFloat b) \<longrightarrow>
          TripPreferences_validate (PDict kw) = Inr (TripPreferences n b is ns pc))
    \<and> (map_of kw ''traveler_count'' = Some (PInt n) \<and> map_of kw ''budget_usd'' = None \<longrightarrow>
          TripPreferences_validate (PDict kw) = Inr (TripPreferences n None is ns pc))
    \<and> (map_of kw ''traveler_count'' = None
            \<and> map_of kw ''budget_usd'' = Some (dump_optional PFloat b) \<longrightarrow>
          TripPreferences_validate (PDict kw) = Inr (TripPreferences 1 b is ns pc))
    \<and> (map_of kw ''traveler_count'' = None \<and> map_of kw ''budget_usd'' = None \<longrightarrow>
          TripPreferences_validate (PDict kw) = Inr (TripPreferences 1 None is ns pc))
    \<and> (map_of kw ''pace'' = None \<longrightarrow> pc = MODERATE)"
  using assms
  by (auto simp: TripPreferences_validate_def with_default_def)

theorem trip_preferences_unbounded_witness:
  "TripPreferences_validate (PDict [(''traveler_count'', PInt (- 2)), (''budget_usd'', PFloat (- 5))])
     = Inr (TripPreferences (- 2) (Some (- 5)) [] [] MODERATE)
   \<and> TripPreferences_validate (PDict [(''pace'', PStr ''packed'')])
     = Inr (TripPreferences 1 None [] [] PACKED)"
  using trip_preferences_unbounded [of
      "[(''traveler_count'', PInt (- 2)), (''budget_usd'', PFloat (- 5))]"
      "[]" "[]" MODERATE "- 2" "Some (- 5)"]
    trip_preferences_unbounded [of "[(''pace'', PStr ''packed'')]" "[]" "[]" PACKED]
  by (simp add: with_default_def dump_optional_def v_enum_def TripPace_members_def)

theorem trip_preferences_bounds_counterexample:
  "TripPreferences_validate (PDict [(''traveler_count'', PInt 0)])
     = Inr (TripPreferences 0 None [] [] MODERATE)
   \<and> TripPreferences_validate (PDict [(''budget_usd'', PFloat (- 5))])
     = Inr (TripPreferences 1 (Some (- 5)) [] [] MODERATE)"
  by (simp add: TripPreferences_validate_def with_default_def v_int_def v_float_def
      v_optional_def field_def under_def)

text \<open>
  C5, as the code has it. \<open>Activity\<close>, \<open>ActivityNote\<close>, \<open>TravelSegment\<close>,
  \<open>ItineraryDay\<close>, \<open>Flight\<close> and \<open>Accommodation\<close> are frozen: every assignment to a field
  of an instance is rejected with a \<open>frozen_instance\<close> error and leaves the instance as it
  was. \<open>Destination\<close> is not frozen: an assignment to a field succeeds and the instance
  holds the new value.
\<close>

theorem frozen_models_reject_assignment:
  "Activity_setattr assign_a a = (Some frozen_instance, a)
   \<and> ActivityNote_setattr assign_n n = (Some frozen_instance, n)
   \<and> TravelSegment_setattr assign_s s = (Some frozen_instance, s)
   \<and> ItineraryDay_setattr assign_dy dy = (Some frozen_instance, dy)
   \<and> Flight_setattr assign_f f = (Some frozen_instance, f)
   \<and> Accommodation_setattr assign_ac ac = (Some frozen_instance, ac)
   \<and> Destination_setattr assign_d d = (None, assign_d d)"
  by (simp add: model_setattr_def Activity_setattr_def ActivityNote_setattr_def
      TravelSegment_setattr_def ItineraryDay_setattr_def Flight_setattr_def
      Accommodation_setattr_def Destination_setattr_def
      Activity_model_config_def ActivityNote_model_config_def TravelSegment_model_config_def
      ItineraryDay_model_config_def Flight_model_config_def Accommodation_model_config_def
      Destination_model_config_def default_model_config_def)

theorem frozen_models_reject_assignment_witness:
  "Activity_setattr
     (\<lambda>a. Activity ''Changed'' (Activity.description a) (Activity.duration_hours a) (category a)
        (start_time a) (end_time a) (Activity.estimated_cost_usd a) (Activity.location a)
        (Activity.coordinates a) (Activity.notes' a))
     sample_activity = (Some frozen_instance, sample_activity)"
  using frozen_models_reject_assignment [of
     "\<lambda>a. Activity ''Changed'' (Activity.description a) (Activity.duration_hours a) (category a)
        (start_time a) (end_time a) (Activity.estimated_cost_usd a) (Activity.location a)
        (Activity.coordinates a) (Activity.notes' a)" sample_activity]
  by simp

theorem destination_assignment_counterexample:
  "Destination_setattr
     (\<lambda>d. Destination ''Osaka'' (country d) (iata_code d) (Destination.coordinates d))
     sample_destination
     = (None, Destination ''Osaka'' ''Japan'' (Some ''KIX'') (Some (35.0116, 135.7681)))
   \<and> Destination ''Osaka'' ''Japan'' (Some ''KIX'') (Some (35.0116, 135.7681)) \<noteq> sample_destination"
  by (simp add: Destination_setattr_def model_setattr_def Destination_model_config_def
      default_model_config_def sample_destination_def)

end
